theory Spec2Isabelle
  imports Main "HOL-Library.Word" "HOL-Library.Char_ord" "HOL-Library.List_Lexorder"
begin

section \<open>Common values (lib/common, lib/error)\<close>

type_synonym uint64 = "64 word"

text \<open>
  Modelled from the spec: the declaration of \<open>common.Amount\<close> is not among the sources.
  The spec gives a non-negative integer whose addition fails on overflow, block.go declares
  \<open>BaseFee Amount = 10000\<close>, and operation_payment.go converts an amount with
  \<open>int64(o.Amount)\<close>; it is taken as Go's unsigned 64-bit integer.
\<close>

type_synonym Amount = "64 word"

definition BaseFee :: Amount where
  "BaseFee = 10000"

definition BaseReserve :: Amount where
  "BaseReserve = 1000000"

definition GenesisBlockConfirmedTime :: string where
  "GenesisBlockConfirmedTime = ''2018-04-17T5:07:31.000000000Z''"

text \<open>
  The error values the sources name (package \<open>errors\<close>), the storage errors of the
  absent backend, the error of the external \<open>keypair.Parse\<close>, the failure of the arithmetic
  on amounts (section 3 of the spec), and a Go run-time panic.
\<close>

datatype error =
    ErrorBlockAlreadyExists
  | ErrorBlockNotFound
  | ErrorBlockAccountDoesNotExists
  | ErrorBlockAccountAlreadyExists
  | ErrorTransactionInvalidSequenceID
  | ErrorTransactionExcessAbilityToPay
  | ErrorOperationAmountUnderflow
  | ErrorStorageRecordAlreadyExists
  | ErrorStorageRecordDoesNotExist
  | ErrorStorageCoreError
  | ErrorKeypairParse
  | AmountOverflow
  | RuntimePanic string

text \<open>
  Modelled from the spec: the key prefixes (\<open>common.BlockPrefixHash\<close> and its siblings) are
  not among the sources; section 6 of the spec lists the keys as \<open>block/hash/<hash>\<close>,
  \<open>block/confirmed/...\<close>, \<open>block/height/...\<close> and \<open>account/<addr>\<close>.
\<close>

definition BlockPrefixHash :: string where
  "BlockPrefixHash = ''block/hash/''"

definition BlockPrefixConfirmed :: string where
  "BlockPrefixConfirmed = ''block/confirmed/''"

definition BlockPrefixHeight :: string where
  "BlockPrefixHeight = ''block/height/''"

definition BlockAccountPrefixAddress :: string where
  "BlockAccountPrefixAddress = ''account/''"

section \<open>Formatting (the part of \<open>fmt.Sprintf\<close> that block.go uses)\<close>

definition digit_char :: "nat \<Rightarrow> char" where
  "digit_char d = ''0123456789'' ! d"

text \<open>The verb \<open>%d\<close> on an unsigned value: its decimal digits, no leading zero.\<close>

function FormatUint :: "nat \<Rightarrow> string" where
  "FormatUint n =
     (if n < 10 then [digit_char n] else FormatUint (n div 10) @ [digit_char (n mod 10)])"
  by pat_completeness auto
termination
  by (relation "measure id") auto

declare FormatUint.simps [simp del]

text \<open>
  The verb \<open>%0<w>d\<close>: the decimal digits, padded on the left with zeros up to width \<open>w\<close>;
  a longer number is printed in full.
\<close>

definition Sprintf_0d :: "nat \<Rightarrow> nat \<Rightarrow> string" where
  "Sprintf_0d w n = (let s = FormatUint n in replicate (w - length s) (CHR ''0'') @ s)"

section \<open>Blocks (lib/block/block.go)\<close>

definition maxBlockHeightStringLength :: nat where
  "maxBlockHeightStringLength = 20"

definition EventBlockPrefix :: string where
  "EventBlockPrefix = ''bk-saved''"

text \<open>
  Modelled from the spec: \<open>round.Round\<close> and the block \<open>Header\<close> are declared in files that
  are not among the sources; their fields are those of section 3 of the spec.
\<close>

record Round =
  Number :: uint64
  BlockHeight :: uint64
  BlockHash :: string
  TotalTxs :: uint64

record Header =
  Height :: uint64
  PrevBlockHash :: string
  TransactionsRoot :: string

text \<open>\<open>Block\<close> embeds \<open>Header\<close>, so that \<open>b.Height\<close> is a field of the block.\<close>

record Block = Header +
  Transactions :: "string list"
  Hash :: string
  Confirmed :: string
  Proposer :: string
  Round :: Round

definition empty_Round :: Round where
  "empty_Round = \<lparr>Number = 0, BlockHeight = 0, BlockHash = [], TotalTxs = 0\<rparr>"

text \<open>The zero value \<open>Block{}\<close>.\<close>

definition empty_Block :: Block where
  "empty_Block = \<lparr>Height = 0, PrevBlockHash = [], TransactionsRoot = [],
     Transactions = [], Hash = [], Confirmed = [], Proposer = [], Round = empty_Round\<rparr>"

definition GetBlockKey :: "string \<Rightarrow> string" where
  "GetBlockKey hash = BlockPrefixHash @ hash"

definition GetBlockKeyPrefixConfirmed :: "string \<Rightarrow> string" where
  "GetBlockKeyPrefixConfirmed confirmed = BlockPrefixConfirmed @ confirmed @ ''-''"

definition GetBlockKeyPrefixHeight :: "uint64 \<Rightarrow> string" where
  "GetBlockKeyPrefixHeight height =
     BlockPrefixHeight @ Sprintf_0d maxBlockHeightStringLength (unat height) @ ''-''"


section \<open>Accounts and transactions (lib/block, lib/transaction)\<close>

text \<open>
  \<open>BlockAccount\<close> as the tests build it (checker_ballot_transaction_test.go) and as
  \<open>MakeGenesisBlock\<close> reads it: address, balance and sequence ID.
\<close>

record BlockAccount =
  Address :: string
  Balance :: Amount
  SequenceID :: uint64

datatype OperationType = OperationCreateAccount | OperationPayment

record OperationBodyPayment =
  Target :: string
  Amount :: Amount

text \<open>
  \<open>OperationBodyCreateAccount\<close> is declared in a file that is not among the sources; the
  tests give it a target and an amount, and \<open>NewOperationBodyCreateAccount\<close> takes a third
  string. Its field names carry a prefix because a record of this theory already has them.
\<close>

record OperationBodyCreateAccount =
  CreateTarget :: string
  CreateAmount :: Amount
  Linked :: string

definition NewOperationBodyCreateAccount ::
    "string \<Rightarrow> Amount \<Rightarrow> string \<Rightarrow> OperationBodyCreateAccount" where
  "NewOperationBodyCreateAccount target amount linked =
     \<lparr>CreateTarget = target, CreateAmount = amount, Linked = linked\<rparr>"

text \<open>The interface \<open>OperationBody\<close> with its two implementations.\<close>

datatype OperationBody =
    BodyPayment OperationBodyPayment
  | BodyCreateAccount OperationBodyCreateAccount

fun TargetAddress :: "OperationBody \<Rightarrow> string" where
  "TargetAddress (BodyPayment body) = Target body"
| "TargetAddress (BodyCreateAccount body) = CreateTarget body"

fun GetAmount :: "OperationBody \<Rightarrow> Amount" where
  "GetAmount (BodyPayment body) = Amount body"
| "GetAmount (BodyCreateAccount body) = CreateAmount body"

record OperationHeader =
  Type :: OperationType

record Operation =
  OpH :: OperationHeader
  OpB :: OperationBody

record TransactionHeader =
  Created :: string
  TxHash :: string
  Signature :: string

record TransactionBody =
  Source :: string
  Fee :: Amount
  TxSequenceID :: uint64
  Operations :: "Operation list"

record Transaction =
  T :: string
  H :: TransactionHeader
  B :: TransactionBody

definition GetHash :: "Transaction \<Rightarrow> string" where
  "GetHash tx = TxHash (H tx)"

section \<open>The key/value storage\<close>

text \<open>
  Modelled from the spec: the storage backend (\<open>storage.LevelDBBackend\<close> with \<open>Has\<close>,
  \<open>New\<close>, \<open>Get\<close> and \<open>GetIterator\<close>) is not among the sources. The spec describes a keyed
  store of JSON records, ordered by key, in which writing an already-present record fails.
  The store is a list of records with distinct keys; every value carries the type it was
  written with. \<open>New\<close> refuses a key that is present and otherwise adds the record; the
  failures of the disk are left out, so \<open>Has\<close> always returns a nil error.
\<close>

datatype stored =
    StoredBlock Block
  | StoredString string
  | StoredBlockAccount BlockAccount
  | StoredBlockTransaction Transaction

type_synonym LevelDBBackend = "(string \<times> stored) list"

definition Has :: "LevelDBBackend \<Rightarrow> string \<Rightarrow> bool \<times> error option" where
  "Has st k = (map_of st k \<noteq> None, None)"

definition New :: "LevelDBBackend \<Rightarrow> string \<Rightarrow> stored \<Rightarrow> error option \<times> LevelDBBackend" where
  "New st k v =
     (case Has st k of
        (_, Some e) \<Rightarrow> (Some e, st)
      | (True, None) \<Rightarrow> (Some ErrorStorageRecordAlreadyExists, st)
      | (False, None) \<Rightarrow> (None, (k, v) # st))"

definition Get :: "LevelDBBackend \<Rightarrow> string \<Rightarrow> error + stored" where
  "Get st k = (case map_of st k of None \<Rightarrow> Inl ErrorStorageRecordDoesNotExist | Some v \<Rightarrow> Inr v)"

record ListOptions =
  Reverse :: bool
  Cursor :: "string option"
  Limit :: uint64

definition NewDefaultListOptions :: "bool \<Rightarrow> string option \<Rightarrow> uint64 \<Rightarrow> ListOptions" where
  "NewDefaultListOptions reverse cursor limit =
     \<lparr>Reverse = reverse, Cursor = cursor, Limit = limit\<rparr>"

record IterItem =
  Key :: string
  Value :: stored

definition empty_IterItem :: IterItem where
  "empty_IterItem = \<lparr>Key = [], Value = StoredString []\<rparr>"

text \<open>
  The iterator over a key prefix: the records under the prefix in key order, backwards when
  \<open>Reverse\<close> is set, from the cursor on, at most \<open>Limit\<close> of them (0 is no limit). The state
  of the iterator is the list of the items it has yet to yield.
\<close>

definition GetIterator :: "LevelDBBackend \<Rightarrow> string \<Rightarrow> ListOptions \<Rightarrow> IterItem list" where
  "GetIterator st pre options =
     (let under = filter (\<lambda>(k, v). take (length pre) k = pre) st;
          ordered = sort_key fst under;
          directed = (if Reverse options then rev ordered else ordered);
          sought = (case Cursor options of
                      None \<Rightarrow> directed
                    | Some c \<Rightarrow> dropWhile (\<lambda>(k, v). if Reverse options then c < k else k < c) directed);
          limited = (if Limit options = 0 then sought else take (unat (Limit options)) sought)
      in map (\<lambda>(k, v). \<lparr>Key = k, Value = v\<rparr>) limited)"

text \<open>One call of the iterator function: the next item and whether there was one.\<close>

definition iterFunc :: "IterItem list \<Rightarrow> (IterItem \<times> bool) \<times> IterItem list" where
  "iterFunc it = (case it of [] \<Rightarrow> ((empty_IterItem, False), []) | x # rest \<Rightarrow> ((x, True), rest))"

section \<open>What block.go takes from packages that are not among the sources\<close>

text \<open>
  The hash functions, the header constructor, the byte encoding of a height, the signature
  with the package's key pair, and the block-transaction record are parameters of the model:
  nothing that is proved below depends on what they compute. \<open>BlockTransaction_Save\<close> stands for
  \<open>NewBlockTransactionFromTransaction(...).Save(st)\<close>.
\<close>

record Lib =
  MustMakeObjectHashString :: "string list \<Rightarrow> string"
  MustMakeObjectHash_base58 :: "Block \<Rightarrow> string"
  NewBlockHeader :: "Round \<Rightarrow> uint64 \<Rightarrow> string \<Rightarrow> Header"
  EncodeUint64ToByteSlice :: "uint64 \<Rightarrow> string"
  MakeHashString :: "TransactionBody \<Rightarrow> string"
  Sign :: "Transaction \<Rightarrow> string \<Rightarrow> Transaction"
  BlockTransaction_Save ::
    "string \<Rightarrow> uint64 \<Rightarrow> string \<Rightarrow> Transaction \<Rightarrow> LevelDBBackend \<Rightarrow> error option \<times> LevelDBBackend"


section \<open>Making, saving and loading blocks (lib/block/block.go)\<close>

definition getTransactionRoot :: "Lib \<Rightarrow> string list \<Rightarrow> string" where
  "getTransactionRoot lib txs = MustMakeObjectHashString lib txs"

text \<open>\<open>NewBlock\<close> hashes the block while its \<open>Hash\<close> field is still empty, then sets it.\<close>

definition NewBlock :: "Lib \<Rightarrow> string \<Rightarrow> Round \<Rightarrow> string list \<Rightarrow> string \<Rightarrow> Block" where
  "NewBlock lib proposer round transactions confirmed =
     (let b = Header.extend
                (NewBlockHeader lib round (of_nat (length transactions))
                   (getTransactionRoot lib transactions))
                (Block.fields transactions [] confirmed proposer round)
      in b\<lparr>Hash := MustMakeObjectHash_base58 lib b\<rparr>)"

text \<open>The unique ID that \<open>common.GetUniqueIDFromUUID()\<close> draws is the argument \<open>uuid\<close>.\<close>

definition NewBlockKeyConfirmed :: "Lib \<Rightarrow> string \<Rightarrow> Block \<Rightarrow> string" where
  "NewBlockKeyConfirmed lib uuid b =
     GetBlockKeyPrefixConfirmed (Confirmed b) @ EncodeUint64ToByteSlice lib (Height b) @ uuid"

text \<open>
  \<open>Block.Save\<close>: three writes in a row, each leaving at its error. The notification of the
  observer after the last write does not touch the storage and is not part of the model.
\<close>

definition Block_Save :: "Lib \<Rightarrow> string \<Rightarrow> Block \<Rightarrow> LevelDBBackend \<Rightarrow> error option \<times> LevelDBBackend" where
  "Block_Save lib uuid b st =
     (let key = GetBlockKey (Hash b) in
      case Has st key of
        (_, Some e) \<Rightarrow> (Some e, st)
      | (True, None) \<Rightarrow> (Some ErrorBlockAlreadyExists, st)
      | (False, None) \<Rightarrow>
          (case New st key (StoredBlock b) of
             (Some e, st1) \<Rightarrow> (Some e, st1)
           | (None, st1) \<Rightarrow>
               (case New st1 (NewBlockKeyConfirmed lib uuid b) (StoredString (Hash b)) of
                  (Some e, st2) \<Rightarrow> (Some e, st2)
                | (None, st2) \<Rightarrow>
                    (case New st2 (GetBlockKeyPrefixHeight (Height b)) (StoredString (Hash b)) of
                       (Some e, st3) \<Rightarrow> (Some e, st3)
                     | (None, st3) \<Rightarrow> (None, st3)))))"

text \<open>
  \<open>st.Get(key, &bt)\<close> decodes the record into a block; a record that is not a block is a
  decoding error here.
\<close>

definition GetBlock :: "LevelDBBackend \<Rightarrow> string \<Rightarrow> Block \<times> error option" where
  "GetBlock st hash =
     (case Get st (GetBlockKey hash) of
        Inl e \<Rightarrow> (empty_Block, Some e)
      | Inr (StoredBlock b) \<Rightarrow> (b, None)
      | Inr _ \<Rightarrow> (empty_Block, Some ErrorStorageCoreError))"

definition ExistsBlock :: "LevelDBBackend \<Rightarrow> string \<Rightarrow> bool \<times> error option" where
  "ExistsBlock st hash = Has st (GetBlockKey hash)"

definition ExistsBlockByHeight :: "LevelDBBackend \<Rightarrow> uint64 \<Rightarrow> bool \<times> error option" where
  "ExistsBlockByHeight st height = Has st (GetBlockKeyPrefixHeight height)"

text \<open>
  \<open>MakeGenesisBlock\<close> returns the block, the error and the storage it leaves. The results
  are named in the source, so the block built so far is returned together with an error.
\<close>

definition MakeGenesisBlock ::
    "Lib \<Rightarrow> string \<Rightarrow> LevelDBBackend \<Rightarrow> BlockAccount \<Rightarrow> string \<Rightarrow>
     Block \<times> error option \<times> LevelDBBackend" where
  "MakeGenesisBlock lib uuid st account networdID =
     (case ExistsBlockByHeight st 1 of (exists, err) \<Rightarrow>
        if exists \<or> err \<noteq> None
        then (empty_Block, (if exists then Some ErrorBlockAlreadyExists else err), st)
        else
          (let opb = NewOperationBodyCreateAccount (Address account) (Balance account) [];
               op = \<lparr>OpH = \<lparr>Type = OperationCreateAccount\<rparr>, OpB = BodyCreateAccount opb\<rparr>;
               txBody = \<lparr>Source = Address account, Fee = 0,
                          TxSequenceID = SequenceID account, Operations = [op]\<rparr>;
               tx0 = \<lparr>T = ''transaction'',
                       H = \<lparr>Created = GenesisBlockConfirmedTime,
                            TxHash = MakeHashString lib txBody, Signature = []\<rparr>,
                       B = txBody\<rparr>;
               tx = Sign lib tx0 networdID;
               transactions = [GetHash tx];
               blk = NewBlock lib [] empty_Round transactions GenesisBlockConfirmedTime
           in case Block_Save lib uuid blk st of
                (Some e, st1) \<Rightarrow> (blk, Some e, st1)
              | (None, st1) \<Rightarrow>
                  (case BlockTransaction_Save lib (Hash blk) (Height blk) (Confirmed blk) tx st1 of
                     (err2, st2) \<Rightarrow> (blk, err2, st2))))"

text \<open>\<open>json.Unmarshal(item.Value, &hash)\<close>: the error is dropped and \<open>hash\<close> stays empty.\<close>

fun unmarshal_hash :: "stored \<Rightarrow> string" where
  "unmarshal_hash (StoredString h) = h"
| "unmarshal_hash _ = []"

text \<open>The iterator function that \<open>LoadBlocksInsideIterator\<close> returns, called once.\<close>

definition LoadBlocksInsideIterator ::
    "LevelDBBackend \<Rightarrow> IterItem list \<Rightarrow> (Block \<times> bool \<times> string) \<times> IterItem list" where
  "LoadBlocksInsideIterator st it =
     (case iterFunc it of ((item, hasNext), it') \<Rightarrow>
        if \<not> hasNext then ((empty_Block, False, Key item), it')
        else
          (let hash = unmarshal_hash (Value item) in
           case GetBlock st hash of
             (b, Some e) \<Rightarrow> ((empty_Block, False, Key item), it')
           | (b, None) \<Rightarrow> ((b, hasNext, Key item), it')))"

definition GetBlocksByConfirmed :: "LevelDBBackend \<Rightarrow> ListOptions \<Rightarrow> IterItem list" where
  "GetBlocksByConfirmed st options = GetIterator st BlockPrefixConfirmed options"

definition GetLatestBlock :: "LevelDBBackend \<Rightarrow> Block \<times> error option" where
  "GetLatestBlock st =
     (let it = GetBlocksByConfirmed st (NewDefaultListOptions True None 1) in
      case LoadBlocksInsideIterator st it of ((b, _, _), _) \<Rightarrow>
        if Hash b = [] then (b, Some ErrorBlockNotFound) else (b, None))"


section \<open>Well-formedness of a payment (lib/transaction/operation_payment.go)\<close>

text \<open>
  \<open>keypair.Parse\<close> belongs to an external library; \<open>parse\<close> gives the error it returns for an
  address, if any. \<open>int64(o.Amount)\<close> reads the 64 bits of the amount as a signed integer.
  The argument of type \<open>[]byte\<close> is not used by the source.
\<close>

definition OperationBodyPayment_IsWellFormed ::
    "(string \<Rightarrow> error option) \<Rightarrow> OperationBodyPayment \<Rightarrow> string \<Rightarrow> error option" where
  "OperationBodyPayment_IsWellFormed parse body networkID =
     (case parse (Target body) of
        Some e \<Rightarrow> Some e
      | None \<Rightarrow> if sint (Amount body) < 1 then Some ErrorOperationAmountUnderflow else None)"

section \<open>The transaction validator\<close>

definition GetBlockAccountKey :: "string \<Rightarrow> string" where
  "GetBlockAccountKey address = BlockAccountPrefixAddress @ address"

text \<open>
  Modelled from the spec: \<open>block.GetBlockAccount\<close> is not among the sources; the account of an
  address is the record under \<open>account/<addr>\<close> (section 6 of the spec).
\<close>

definition GetBlockAccount :: "LevelDBBackend \<Rightarrow> string \<Rightarrow> error + BlockAccount" where
  "GetBlockAccount st address =
     (case Get st (GetBlockAccountKey address) of
        Inl e \<Rightarrow> Inl e
      | Inr (StoredBlockAccount ba) \<Rightarrow> Inr ba
      | Inr _ \<Rightarrow> Inl ErrorStorageCoreError)"

text \<open>
  Modelled from the spec: \<open>block.ExistsBlockAccount\<close> is not among the sources; an account
  exists when its record can be loaded.
\<close>

definition ExistsBlockAccount :: "LevelDBBackend \<Rightarrow> string \<Rightarrow> bool" where
  "ExistsBlockAccount st address =
     (case GetBlockAccount st address of Inl _ \<Rightarrow> False | Inr _ \<Rightarrow> True)"

text \<open>
  Modelled from the spec: \<open>ValidateTx\<close> and the check of one operation are not among the
  sources (only their tests are). Section 4.3 of the spec, step 4: the target account exists
  for a Payment and does not exist for a CreateAccount; the errors are those of the scenarios
  3 and 6 of section 8. An operation is tagged by the type in its header.
\<close>

definition ValidateOp :: "LevelDBBackend \<Rightarrow> Operation \<Rightarrow> error option" where
  "ValidateOp st op =
     (case Type (OpH op) of
        OperationPayment \<Rightarrow>
          if ExistsBlockAccount st (TargetAddress (OpB op)) then None
          else Some ErrorBlockAccountDoesNotExists
      | OperationCreateAccount \<Rightarrow>
          if ExistsBlockAccount st (TargetAddress (OpB op)) then Some ErrorBlockAccountAlreadyExists
          else None)"

text \<open>
  Modelled from the spec: the loop over the operations is not among the sources; section 4.3
  checks "each operation" and "fails at the first violation", so the operations are checked
  in order and the first violation is the result.
\<close>

fun ValidateOps :: "LevelDBBackend \<Rightarrow> Operation list \<Rightarrow> error option" where
  "ValidateOps st [] = None"
| "ValidateOps st (op # ops) =
     (case ValidateOp st op of Some e \<Rightarrow> Some e | None \<Rightarrow> ValidateOps st ops)"

text \<open>
  Modelled from the spec: the arithmetic on amounts is not among the sources. Section 3 of
  the spec: "Arithmetic is fallible: addition fails on overflow". An addition or a
  multiplication whose result does not fit into the 64 bits of an amount fails with
  \<open>AmountOverflow\<close>.
\<close>

definition Amount_Add :: "Amount \<Rightarrow> Amount \<Rightarrow> error + Amount" where
  "Amount_Add a added =
     (if unat a + unat added < 2 ^ 64 then Inr (a + added) else Inl AmountOverflow)"

definition Amount_Mult :: "Amount \<Rightarrow> nat \<Rightarrow> error + Amount" where
  "Amount_Mult a n = (if unat a * n < 2 ^ 64 then Inr (a * of_nat n) else Inl AmountOverflow)"

text \<open>
  Modelled from the spec: section 4.3, step 5, the sum of all operation amounts plus
  \<open>BaseFee\<close> times the number of operations, computed with the fallible arithmetic: the
  amounts are added one after the other, then the fees. The first failure is the result.
\<close>

fun add_amounts :: "Amount \<Rightarrow> Operation list \<Rightarrow> error + Amount" where
  "add_amounts amount [] = Inr amount"
| "add_amounts amount (op # ops) =
     (case Amount_Add amount (GetAmount (OpB op)) of
        Inl e \<Rightarrow> Inl e
      | Inr amount' \<Rightarrow> add_amounts amount' ops)"

definition TotalAmount :: "Transaction \<Rightarrow> error + Amount" where
  "TotalAmount tx =
     (case add_amounts 0 (Operations (B tx)) of
        Inl e \<Rightarrow> Inl e
      | Inr amount \<Rightarrow>
          (case Amount_Mult BaseFee (length (Operations (B tx))) of
             Inl e \<Rightarrow> Inl e
           | Inr fees \<Rightarrow> Amount_Add amount fees))"

text \<open>
  The sum of step 5 as a number, in the words of the spec: all operation amounts plus
  \<open>BaseFee\<close> times the number of operations.
\<close>

definition amounts_and_fees :: "Transaction \<Rightarrow> nat" where
  "amounts_and_fees tx =
     sum_list (map (\<lambda>op. unat (GetAmount (OpB op))) (Operations (B tx)))
       + unat BaseFee * length (Operations (B tx))"

text \<open>Proof device: the amount with the value \<open>n\<close>, if 64 bits hold it.\<close>

definition amount_of :: "nat \<Rightarrow> error + Amount" where
  "amount_of n = (if n < 2 ^ 64 then Inr (of_nat n) else Inl AmountOverflow)"

text \<open>
  Modelled from the spec: \<open>ValidateTx\<close>, section 4.3, "verifies in order and fails at the
  first violation": the source account exists (step 2), the sequence IDs are equal (step 3),
  every operation passes the check of its target (step 4), the total is at most the balance
  of the source (step 5). Step 1, the well-formedness of the transaction, is not a part of
  this function: the tests call it as \<open>ValidateTx(st, tx)\<close>, without the network ID that a
  signature is checked against, on transactions that carry no signature, and expect no
  error; the head of the test file says that those checks belong to \<open>IsWellFormed\<close>.
  The spec does not say what \<open>ValidateTx\<close> returns when the sum of step 5 overflows; in the
  model the failure of the addition is the result, so that such a transaction is neither
  accepted nor refused with \<open>TransactionExcessAbilityToPay\<close>. The storage is only read.
\<close>

definition ValidateTx :: "LevelDBBackend \<Rightarrow> Transaction \<Rightarrow> error option" where
  "ValidateTx st tx =
     (case GetBlockAccount st (Source (B tx)) of
        Inl _ \<Rightarrow> Some ErrorBlockAccountDoesNotExists
      | Inr ba \<Rightarrow>
          if TxSequenceID (B tx) \<noteq> SequenceID ba then Some ErrorTransactionInvalidSequenceID
          else
            (case ValidateOps st (Operations (B tx)) of
               Some e \<Rightarrow> Some e
             | None \<Rightarrow>
                 (case TotalAmount tx of
                    Inl e \<Rightarrow> Some e
                  | Inr totalAmount \<Rightarrow>
                      if Balance ba < totalAmount
                      then Some ErrorTransactionExcessAbilityToPay
                      else None)))"

text \<open>
  The fixtures of checker_ballot_transaction_test.go: two distinct addresses (the tests draw
  random key pairs), accounts of one coin (ten million units), and transactions of payments
  or account creations from the first address to the second.
\<close>

definition kps :: string where
  "kps = ''GSOURCE''"

definition kpt :: string where
  "kpt = ''GTARGET''"

definition AmountPerCoin :: Amount where
  "AmountPerCoin = 10000000"

definition test_account :: "string \<Rightarrow> uint64 \<Rightarrow> BlockAccount" where
  "test_account address seq = \<lparr>Address = address, Balance = 1 * AmountPerCoin, SequenceID = seq\<rparr>"

text \<open>\<open>BlockAccount.Save\<close> on a test storage: the account is written under its key.\<close>

definition save_account :: "BlockAccount \<Rightarrow> LevelDBBackend \<Rightarrow> LevelDBBackend" where
  "save_account ba st = (GetBlockAccountKey (Address ba), StoredBlockAccount ba) # st"

definition payment_op :: "Amount \<Rightarrow> Operation" where
  "payment_op amount =
     \<lparr>OpH = \<lparr>Type = OperationPayment\<rparr>, OpB = BodyPayment \<lparr>Target = kpt, Amount = amount\<rparr>\<rparr>"

definition create_op :: "Amount \<Rightarrow> Operation" where
  "create_op amount =
     \<lparr>OpH = \<lparr>Type = OperationCreateAccount\<rparr>,
      OpB = BodyCreateAccount \<lparr>CreateTarget = kpt, CreateAmount = amount, Linked = []\<rparr>\<rparr>"

definition test_tx :: "uint64 \<Rightarrow> Operation list \<Rightarrow> Transaction" where
  "test_tx seq ops =
     \<lparr>T = ''transaction'',
      H = \<lparr>Created = ''2018-01-01T00:00:00.000000000Z'', TxHash = ''hash'', Signature = []\<rparr>,
      B = \<lparr>Source = kps, Fee = BaseFee, TxSequenceID = seq, Operations = ops\<rparr>\<rparr>"

text \<open>
  The condition of step 4 on one operation, in the words of the spec: the target account
  exists for a Payment and does not exist for a CreateAccount.
\<close>

definition target_resolves :: "LevelDBBackend \<Rightarrow> Operation \<Rightarrow> bool" where
  "target_resolves st op =
     (case Type (OpH op) of
        OperationPayment \<Rightarrow> ExistsBlockAccount st (TargetAddress (OpB op))
      | OperationCreateAccount \<Rightarrow> \<not> ExistsBlockAccount st (TargetAddress (OpB op)))"

text \<open>The storages of the tests: the source alone, the target alone, both.\<close>

definition storage_source :: "uint64 \<Rightarrow> LevelDBBackend" where
  "storage_source seq = save_account (test_account kps seq) []"

definition storage_target :: LevelDBBackend where
  "storage_target = save_account (test_account kpt 0) []"

definition storage_both :: "uint64 \<Rightarrow> LevelDBBackend" where
  "storage_both seq = save_account (test_account kpt 0) (save_account (test_account kps seq) [])"


section \<open>The local node (lib/node/localNode.go)\<close>

text \<open>
  Modelled from the spec: the node states, the endpoint and the validator are declared in
  files that are not among the sources; section 3 of the spec lists the states, the parts of
  an endpoint, and a validator as address, endpoint and alias. The key pair is an external
  library's; the node reads only its address.
\<close>

datatype State = StateNONE | StateBOOTING | StateSYNC | StateCONSENSUS | StateTERMINATING

record Endpoint =
  Scheme :: string
  Host :: string
  Port :: nat
  Path :: string

record Full =
  seed :: string
  address :: string

definition keypair_Address :: "Full \<Rightarrow> string" where
  "keypair_Address kp = address kp"

record Validator =
  validator_address :: string
  validator_alias :: string
  validator_endpoint :: "Endpoint option"

definition Validator_Address :: "Validator \<Rightarrow> string" where
  "Validator_Address v = validator_address v"

definition Validator_Endpoint :: "Validator \<Rightarrow> Endpoint option" where
  "Validator_Endpoint v = validator_endpoint v"

text \<open>The mutex of the node is not a field of the model: the calls are run one at a time.\<close>

record LocalNode =
  keypair :: Full
  state :: State
  nodeAlias :: string
  bindEndpoint :: "Endpoint option"
  publishEndpoint :: "Endpoint option"
  validators :: "string \<rightharpoonup> Validator"

text \<open>
  \<open>MakeAlias\<close> slices the address at \<open>[:4]\<close> and \<open>[l-8:l-4]\<close>; Go panics when the address
  has fewer than eight characters.
\<close>

definition MakeAlias :: "string \<Rightarrow> error + string" where
  "MakeAlias a =
     (let l = length a in
      if l < 8 then Inl (RuntimePanic ''slice bounds out of range'')
      else Inr (take 4 a @ ''.'' @ take 4 (drop (l - 8) a)))"

definition NewLocalNode :: "Full \<Rightarrow> Endpoint option \<Rightarrow> string \<Rightarrow> error + LocalNode" where
  "NewLocalNode kp endpoint alias0 =
     (case (if length alias0 < 1 then MakeAlias (keypair_Address kp) else Inr alias0) of
        Inl e \<Rightarrow> Inl e
      | Inr al \<Rightarrow>
          Inr \<lparr>keypair = kp, state = StateNONE, nodeAlias = al, bindEndpoint = endpoint,
               publishEndpoint = None, validators = Map.empty\<rparr>)"

definition LocalNode_Address :: "LocalNode \<Rightarrow> string" where
  "LocalNode_Address n = keypair_Address (keypair n)"

definition HasValidators :: "LocalNode \<Rightarrow> string \<Rightarrow> bool" where
  "HasValidators n a = (validators n a \<noteq> None)"

definition GetValidators :: "LocalNode \<Rightarrow> (string \<rightharpoonup> Validator)" where
  "GetValidators n = validators n"

text \<open>The loop of \<open>AddValidators\<close>: a validator with the node's own address is skipped.\<close>

fun AddValidators_range :: "LocalNode \<Rightarrow> Validator list \<Rightarrow> LocalNode" where
  "AddValidators_range n [] = n"
| "AddValidators_range n (va # vas) =
     (if LocalNode_Address n = Validator_Address va then AddValidators_range n vas
      else AddValidators_range (n\<lparr>validators := (validators n)(Validator_Address va \<mapsto> va)\<rparr>) vas)"

text \<open>\<open>AddValidators\<close> returns a nil error and leaves the node with its new registry.\<close>

definition AddValidators :: "LocalNode \<Rightarrow> Validator list \<Rightarrow> error option \<times> LocalNode" where
  "AddValidators n vas = (None, AddValidators_range n vas)"

text \<open>A sequence of calls of \<open>AddValidators\<close>, one list of validators for each call.\<close>

fun AddValidators_calls :: "LocalNode \<Rightarrow> Validator list list \<Rightarrow> LocalNode" where
  "AddValidators_calls n [] = n"
| "AddValidators_calls n (vas # calls) = AddValidators_calls (snd (AddValidators n vas)) calls"

section \<open>The connection manager (lib/network/validator_connection_manager.go)\<close>

text \<open>
  Modelled from the spec: the message types are constants of a file that is not among the
  sources; section 6 of the spec gives them on the wire as \<open>ballot\<close> and \<open>transaction\<close>.
  A message is what the manager reads of the interface \<open>common.Message\<close>: its type.
\<close>

definition BallotMessage :: string where
  "BallotMessage = ''ballot''"

definition TransactionMessage :: string where
  "TransactionMessage = ''transaction''"

record Message =
  GetType :: string
  GetHashOfMessage :: string

text \<open>A client is known by the endpoint it was made for; a nil client is \<open>None\<close>.\<close>

datatype NetworkClient = NetworkClient "Endpoint option"

text \<open>
  The fields that \<open>GetConnection\<close> and \<open>Broadcast\<close> read or write. \<open>network\<close> is the method
  \<open>GetClient\<close> of the interface \<open>Network\<close>. The map \<open>connected\<close> is a list of entries with
  distinct addresses, in the order in which \<open>range\<close> visits them (Go fixes no order).
\<close>

record ValidatorConnectionManager =
  localNode :: LocalNode
  network :: "Endpoint option \<Rightarrow> NetworkClient option"
  cm_validators :: "string \<rightharpoonup> Validator"
  clients :: "string \<rightharpoonup> NetworkClient"
  connected :: "(string \<times> bool) list"

definition GetConnection ::
    "ValidatorConnectionManager \<Rightarrow> string \<Rightarrow> NetworkClient option \<times> ValidatorConnectionManager" where
  "GetConnection c a =
     (case clients c a of
        Some client \<Rightarrow> (Some client, c)
      | None \<Rightarrow>
          (case cm_validators c a of
             None \<Rightarrow> (None, c)
           | Some validator \<Rightarrow>
               (case network c (Validator_Endpoint validator) of
                  None \<Rightarrow> (None, c)
                | Some client \<Rightarrow> (Some client, c\<lparr>clients := (clients c)(a \<mapsto> client)\<rparr>))))"

text \<open>
  What one goroutine of \<open>Broadcast\<close> does: the message goes out through \<open>SendBallot\<close> or
  \<open>SendMessage\<close>, or the goroutine panics, which ends the process. A method call on a nil
  validator or on a nil client is a panic of the Go run time. An error that the send
  returns is only logged.
\<close>

datatype sent =
    SendBallot NetworkClient Message
  | SendMessage NetworkClient Message
  | Panic string

definition Broadcast_go ::
    "ValidatorConnectionManager \<Rightarrow> Message \<Rightarrow> Validator option \<Rightarrow> sent \<times> ValidatorConnectionManager" where
  "Broadcast_go c message vo =
     (case vo of
        None \<Rightarrow> (Panic ''nil pointer dereference'', c)
      | Some v \<Rightarrow>
          (case GetConnection c (Validator_Address v) of (client, c') \<Rightarrow>
             if GetType message = BallotMessage then
               (case client of
                  None \<Rightarrow> (Panic ''nil pointer dereference'', c')
                | Some cl \<Rightarrow> (SendBallot cl message, c'))
             else if GetType message = TransactionMessage then
               (case client of
                  None \<Rightarrow> (Panic ''nil pointer dereference'', c')
                | Some cl \<Rightarrow> (SendMessage cl message, c'))
             else (Panic ''invalid message'', c')))"

text \<open>
  The loop of \<open>Broadcast\<close> over the map \<open>connected\<close>: one goroutine for every entry that is
  connected. The goroutines are run here in the order of the entries; they share only the
  memo of clients, which \<open>GetConnection\<close> guards with the lock.
\<close>

fun Broadcast_range ::
    "ValidatorConnectionManager \<Rightarrow> Message \<Rightarrow> (string \<times> bool) list \<Rightarrow>
     sent list \<times> ValidatorConnectionManager" where
  "Broadcast_range c message [] = ([], c)"
| "Broadcast_range c message ((addr, isConnected) # rest) =
     (if isConnected then
        (case Broadcast_go c message (cm_validators c addr) of (s, c') \<Rightarrow>
           (case Broadcast_range c' message rest of (ss, c'') \<Rightarrow> (s # ss, c'')))
      else Broadcast_range c message rest)"

definition Broadcast ::
    "ValidatorConnectionManager \<Rightarrow> Message \<Rightarrow> sent list \<times> ValidatorConnectionManager" where
  "Broadcast c message = Broadcast_range c message (connected c)"

fun is_Panic :: "sent \<Rightarrow> bool" where
  "is_Panic (Panic _) = True"
| "is_Panic _ = False"

text \<open>The process is aborted when one of the goroutines panics.\<close>

definition aborts :: "sent list \<Rightarrow> bool" where
  "aborts outcomes = list_ex is_Panic outcomes"

text \<open>
  Every connected address has a validator in the table, and a client can be had for that
  validator.
\<close>

definition resolves :: "ValidatorConnectionManager \<Rightarrow> string \<times> bool \<Rightarrow> bool" where
  "resolves c entry =
     (case entry of (addr, isConnected) \<Rightarrow>
        \<not> isConnected \<or>
        (case cm_validators c addr of
           None \<Rightarrow> False
         | Some v \<Rightarrow> fst (GetConnection c (Validator_Address v)) \<noteq> None))"

definition all_resolve :: "ValidatorConnectionManager \<Rightarrow> bool" where
  "all_resolve c = list_all (resolves c) (connected c)"


section \<open>Values for running the model\<close>

text \<open>
  Two strings with a valid checksum in the encoding that \<open>keypair.Parse\<close> decodes: the account
  address and the secret seed of the key of 32 zero bytes.
\<close>

definition zero_account_address :: string where
  "zero_account_address = ''GAAAAAAAAAAAAAAAAAAAAAAAAAAAAAAAAAAAAAAAAAAAAAAAAAAAAWHF''"

definition zero_secret_seed :: string where
  "zero_secret_seed = ''SAAAAAAAAAAAAAAAAAAAAAAAAAAAAAAAAAAAAAAAAAAAAAAAAAAABSU2''"

text \<open>
  \<open>keypair.Parse\<close> on the strings that are used below: it accepts the address and the seed
  above (an address and a seed are both parsed), and it refuses the short string
  \<open>GTARGET\<close>. On other strings this stand-in says nothing about the library.
\<close>

definition sample_Parse :: "string \<Rightarrow> error option" where
  "sample_Parse s =
     (if s = zero_account_address \<or> s = zero_secret_seed then None else Some ErrorKeypairParse)"

text \<open>
  Stand-ins for the functions of \<open>Lib\<close>, used where a theorem is instantiated: hashes that
  join their input, a header one above the height of the round, a signature that is the
  network ID, and a block transaction written under its own key.
\<close>

definition test_Lib :: Lib where
  "test_Lib =
     \<lparr>MustMakeObjectHashString = concat,
      MustMakeObjectHash_base58 = (\<lambda>b. ''B'' @ concat (Transactions b) @ Confirmed b),
      NewBlockHeader = (\<lambda>round currentTxs txRoot.
         \<lparr>Height = BlockHeight round + 1, PrevBlockHash = BlockHash round,
          TransactionsRoot = txRoot\<rparr>),
      EncodeUint64ToByteSlice = (\<lambda>h. FormatUint (unat h)),
      MakeHashString = (\<lambda>body. ''T'' @ Source body),
      Sign = (\<lambda>tx networkID. tx\<lparr>H := (H tx)\<lparr>Signature := networkID\<rparr>\<rparr>),
      BlockTransaction_Save = (\<lambda>hash height confirmed tx st.
         New st (''bt/'' @ TxHash (H tx)) (StoredBlockTransaction tx))\<rparr>"

definition genesis_account :: BlockAccount where
  "genesis_account = \<lparr>Address = ''GENESIS'', Balance = 1000 * AmountPerCoin, SequenceID = 0\<rparr>"



text \<open>A storage that holds the height record of a block of height 1.\<close>

definition storage_genesis :: LevelDBBackend where
  "storage_genesis = [(''block/height/00000000000000000001-'', StoredString ''genesis'')]"

text \<open>
  A storage without a saved block: whatever record lies under the prefix of the confirmed
  keys, the block it names cannot be loaded or has an empty hash.
\<close>

definition no_saved_block :: "LevelDBBackend \<Rightarrow> bool" where
  "no_saved_block st =
     list_all (\<lambda>(k, v).
        take (length BlockPrefixConfirmed) k = BlockPrefixConfirmed \<longrightarrow>
        (case GetBlock st (unmarshal_hash v) of (b, err) \<Rightarrow> err \<noteq> None \<or> Hash b = [])) st"

text \<open>A key pair with a full-length address, two validators, one of them the node itself.\<close>

definition test_kp :: Full where
  "test_kp = \<lparr>seed = ''SSEED'', address = ''GLOCALNODEADDRESS''\<rparr>"

definition validator_self :: Validator where
  "validator_self = \<lparr>validator_address = ''GLOCALNODEADDRESS'', validator_alias = ''self'',
     validator_endpoint = None\<rparr>"

definition validator_other :: Validator where
  "validator_other = \<lparr>validator_address = ''GOTHERNODEADDRESS'', validator_alias = ''other'',
     validator_endpoint = None\<rparr>"

text \<open>Two calls of \<open>AddValidators\<close>; both name the node itself.\<close>

definition test_calls :: "Validator list list" where
  "test_calls = [validator_self, validator_other] # [validator_self] # []"

definition test_node :: LocalNode where
  "test_node = \<lparr>keypair = test_kp, state = StateNONE, nodeAlias = ''GLOC.EADD'',
     bindEndpoint = None, publishEndpoint = None, validators = Map.empty\<rparr>"


text \<open>
  Proof device for the broadcast: two states of the manager with the same table of validators
  in which \<open>GetConnection\<close> yields the same client for every address.
\<close>

definition same_view :: "ValidatorConnectionManager \<Rightarrow> ValidatorConnectionManager \<Rightarrow> bool" where
  "same_view c c' \<longleftrightarrow>
     cm_validators c' = cm_validators c \<and> (\<forall>a. fst (GetConnection c' a) = fst (GetConnection c a))"

text \<open>A manager with two connected validators and one that is not connected.\<close>

definition test_manager :: ValidatorConnectionManager where
  "test_manager =
     \<lparr>localNode = test_node,
      network = (\<lambda>endpoint. Some (NetworkClient endpoint)),
      cm_validators = [''GOTHERNODEADDRESS'' \<mapsto> validator_other,
                       ''GTHIRDNODEADDRESS'' \<mapsto> validator_other\<lparr>validator_address := ''GTHIRDNODEADDRESS''\<rparr>],
      clients = Map.empty,
      connected = [(''GOTHERNODEADDRESS'', True), (''GTHIRDNODEADDRESS'', False)]\<rparr>"

text \<open>The same manager before any validator is connected.\<close>

definition idle_manager :: ValidatorConnectionManager where
  "idle_manager = test_manager\<lparr>connected := [(''GOTHERNODEADDRESS'', False)]\<rparr>"


text \<open>Proof device for the height keys: exactly \<open>w\<close> decimal digits, most significant first.\<close>

fun fixed_digits :: "nat \<Rightarrow> nat \<Rightarrow> string" where
  "fixed_digits 0 n = []"
| "fixed_digits (Suc w) n = fixed_digits w (n div 10) @ [digit_char (n mod 10)]"


section \<open>Height keys keep the order of heights\<close>

lemma digit_char_zero: "digit_char 0 = CHR ''0''"
  by (simp add: digit_char_def)

lemma fixed_digits_zero: "fixed_digits w 0 = replicate w (CHR ''0'')"
  by (induction w) (simp_all add: digit_char_zero replicate_append_same)

lemma length_fixed_digits: "length (fixed_digits w n) = w"
  by (induction w arbitrary: n) simp_all

lemma Sprintf_0d_fixed: "n < 10 ^ Suc w \<Longrightarrow> Sprintf_0d (Suc w) n = fixed_digits (Suc w) n"
proof (induction w arbitrary: n)
  case 0
  then show ?case by (simp add: Sprintf_0d_def FormatUint.simps [of n])
next
  case (Suc w)
  show ?case
  proof (cases "n < 10")
    case True
    then have "n div 10 = 0" by simp
    with True show ?thesis
      by (simp add: Sprintf_0d_def FormatUint.simps [of n] fixed_digits_zero replicate_append_same
          del: replicate_Suc)
  next
    case False
    from Suc.prems have "n div 10 < 10 ^ Suc w" by simp
    then have ih: "Sprintf_0d (Suc w) (n div 10) = fixed_digits (Suc w) (n div 10)"
      by (rule Suc.IH)
    from False have "Sprintf_0d (Suc (Suc w)) n =
        Sprintf_0d (Suc w) (n div 10) @ [digit_char (n mod 10)]"
      by (simp add: Sprintf_0d_def FormatUint.simps [of n] Let_def)
    with ih show ?thesis by simp
  qed
qed

lemma below_ten: "(d::nat) < 10 \<Longrightarrow> d \<in> {0, 1, 2, 3, 4, 5, 6, 7, 8, 9}"
  by auto

lemma of_char_digit_char: "d < 10 \<Longrightarrow> of_char (digit_char d) = 48 + d"
  using below_ten [of d] by (auto simp add: digit_char_def)

lemma digit_char_less: "a < b \<Longrightarrow> b < 10 \<Longrightarrow> digit_char a < digit_char b"
  by (simp add: less_char_def of_char_digit_char)

lemma fixed_digits_less:
  "a < b \<Longrightarrow> b < 10 ^ w \<Longrightarrow> fixed_digits w a < fixed_digits w b"
proof (induction w arbitrary: a b)
  case 0
  then show ?case by simp
next
  case (Suc w)
  have le: "a div 10 \<le> b div 10" using Suc.prems(1) by (simp add: div_le_mono)
  show ?case
  proof (cases "a div 10 = b div 10")
    case True
    with Suc.prems(1) have "a mod 10 < b mod 10"
      by (metis div_mult_mod_eq nat_add_left_cancel_less)
    then have "digit_char (a mod 10) < digit_char (b mod 10)"
      by (rule digit_char_less) simp
    with True show ?thesis
      by (simp add: list_less_def lexord_append_left_rightI)
  next
    case False
    with le have "a div 10 < b div 10" by simp
    moreover from Suc.prems(2) have "b div 10 < 10 ^ w" by simp
    ultimately have "fixed_digits w (a div 10) < fixed_digits w (b div 10)" by (rule Suc.IH)
    then show ?thesis
      by (simp add: list_less_def lexord_sufI length_fixed_digits)
  qed
qed

lemma uint64_below_width: "unat (h :: uint64) < 10 ^ 20"
proof -
  have "unat h < 2 ^ 64" using unsigned_less [of h] by simp
  also have "(2::nat) ^ 64 < 10 ^ 20" by simp
  finally show ?thesis .
qed

lemma Sprintf_0d_uint64: "Sprintf_0d 20 (unat (h :: uint64)) = fixed_digits 20 (unat h)"
  using Sprintf_0d_fixed [of "unat h" 19] uint64_below_width [of h] by simp

text \<open>
  C8. Height keys are zero-padded to 20 digits, so the byte-wise order of the keys is the
  numeric order of the heights: for all heights \<open>h1 < h2\<close> (a \<open>uint64\<close> is below \<open>10^20\<close>)
  the key of \<open>h1\<close> is lexicographically strictly below the key of \<open>h2\<close>.
\<close>

theorem GetBlockKeyPrefixHeight_strict_mono:
  "h1 < h2 \<Longrightarrow> GetBlockKeyPrefixHeight h1 < GetBlockKeyPrefixHeight h2"
proof -
  assume "h1 < h2"
  then have "unat h1 < unat h2" by (simp add: word_less_nat_alt)
  then have "fixed_digits 20 (unat h1) < fixed_digits 20 (unat h2)"
    using uint64_below_width [of h2] by (rule fixed_digits_less)
  then have "(Sprintf_0d 20 (unat h1), Sprintf_0d 20 (unat h2)) \<in> lexord {(u, v). u < v}"
    and "length (Sprintf_0d 20 (unat h2)) \<le> length (Sprintf_0d 20 (unat h1))"
    by (simp_all add: list_less_def length_fixed_digits Sprintf_0d_uint64)
  then have "(Sprintf_0d 20 (unat h1) @ ''-'', Sprintf_0d 20 (unat h2) @ ''-'')
      \<in> lexord {(u, v). u < v}"
    by (rule lexord_sufI)
  then show ?thesis
    unfolding GetBlockKeyPrefixHeight_def maxBlockHeightStringLength_def list_less_def
    by (rule lexord_append_leftI)
qed

lemma pad_unfold: "0 < n \<Longrightarrow> replicate n c = c # replicate (n - 1) c"
  by (cases n) simp_all

lemma FormatUint_digit: "n < 10 \<Longrightarrow> FormatUint n = [digit_char n]"
  by (simp add: FormatUint.simps [of n])

lemma FormatUint_more:
  "\<not> n < 10 \<Longrightarrow> FormatUint n = FormatUint (n div 10) @ [digit_char (n mod 10)]"
  by (simp add: FormatUint.simps [of n])

lemmas key_eval = GetBlockKeyPrefixHeight_def Sprintf_0d_def FormatUint_digit FormatUint_more
  BlockPrefixHeight_def maxBlockHeightStringLength_def digit_char_def pad_unfold

lemma GetBlockKeyPrefixHeight_9:
  "GetBlockKeyPrefixHeight 9 = ''block/height/00000000000000000009-''"
  by (simp add: key_eval)

lemma GetBlockKeyPrefixHeight_10:
  "GetBlockKeyPrefixHeight 10 = ''block/height/00000000000000000010-''"
  by (simp add: key_eval)

lemma GetBlockKeyPrefixHeight_1:
  "GetBlockKeyPrefixHeight 1 = ''block/height/00000000000000000001-''"
  by (simp add: key_eval)

theorem GetBlockKeyPrefixHeight_strict_mono_witness:
  "(9 :: uint64) < 10 \<and>
   ''block/height/00000000000000000009-'' < ''block/height/00000000000000000010-''"
proof -
  have h: "(9 :: uint64) < 10" by simp
  from GetBlockKeyPrefixHeight_strict_mono [OF h] show ?thesis
    by (simp only: h GetBlockKeyPrefixHeight_9 GetBlockKeyPrefixHeight_10 simp_thms)
qed

section \<open>Saving a block, the genesis block, the latest block\<close>


lemma Has_simp [simp]: "Has st k = (map_of st k \<noteq> None, None)"
  by (simp add: Has_def)











text \<open>
  C5. \<open>MakeGenesisBlock\<close> is idempotent: on every storage that already has a block at height
  1 (\<open>ExistsBlockByHeight\<close> finds the record under the height key) it returns the empty block
  and the error \<open>BlockAlreadyExists\<close>, and the storage it leaves is the storage it was given,
  with no record written.
\<close>

theorem MakeGenesisBlock_idempotent:
  "fst (ExistsBlockByHeight st 1) \<Longrightarrow>
   MakeGenesisBlock lib uuid st account networdID = (empty_Block, Some ErrorBlockAlreadyExists, st)"
  by (simp add: MakeGenesisBlock_def ExistsBlockByHeight_def split: prod.splits)

lemma NewBlock_genesis:
  "NewBlock test_Lib [] empty_Round [''TGENESIS''] GenesisBlockConfirmedTime =
     \<lparr>Height = 1, PrevBlockHash = [], TransactionsRoot = ''TGENESIS'',
      Transactions = [''TGENESIS''], Hash = ''BTGENESIS2018-04-17T5:07:31.000000000Z'',
      Confirmed = ''2018-04-17T5:07:31.000000000Z'', Proposer = [], Round = empty_Round\<rparr>"
  by (simp add: NewBlock_def test_Lib_def getTransactionRoot_def empty_Round_def
      GenesisBlockConfirmedTime_def Header.defs Block.defs Let_def)

theorem MakeGenesisBlock_idempotent_witness:
  "fst (ExistsBlockByHeight storage_genesis 1) \<and>
   MakeGenesisBlock test_Lib ''uuid'' storage_genesis genesis_account ''net''
     = (empty_Block, Some ErrorBlockAlreadyExists, storage_genesis)"
proof -
  have h: "fst (ExistsBlockByHeight storage_genesis 1)"
    by (simp add: ExistsBlockByHeight_def GetBlockKeyPrefixHeight_1 storage_genesis_def)
  from MakeGenesisBlock_idempotent [OF h] h show ?thesis by simp
qed


lemma GetIterator_from_storage:
  assumes "item \<in> set (GetIterator st pre options)"
  shows "(Key item, Value item) \<in> set st \<and> take (length pre) (Key item) = pre"
proof -
  let ?under = "filter (\<lambda>(k, v). take (length pre) k = pre) st"
  let ?ordered = "sort_key fst ?under"
  let ?directed = "if Reverse options then rev ?ordered else ?ordered"
  let ?sought = "case Cursor options of None \<Rightarrow> ?directed
     | Some c \<Rightarrow> dropWhile (\<lambda>(k, v). if Reverse options then c < k else k < c) ?directed"
  let ?limited = "if Limit options = 0 then ?sought else take (unat (Limit options)) ?sought"
  from assms obtain k v where kv: "(k, v) \<in> set ?limited" and item: "item = \<lparr>Key = k, Value = v\<rparr>"
    by (auto simp add: GetIterator_def Let_def)
  have "set ?limited \<subseteq> set ?sought"
    by (simp add: set_take_subset)
  moreover have "set ?sought \<subseteq> set ?directed"
    by (auto split: option.splits dest: set_dropWhileD)
  moreover have "set ?directed = set ?under"
    by simp
  ultimately have "(k, v) \<in> set ?under" using kv by blast
  with item show ?thesis by simp
qed

lemma LoadBlocks_first:
  assumes "no_saved_block st"
  shows "Hash (fst (fst (LoadBlocksInsideIterator st (GetIterator st BlockPrefixConfirmed options)))) = []"
proof (cases "GetIterator st BlockPrefixConfirmed options")
  case Nil
  then show ?thesis
    by (simp add: LoadBlocksInsideIterator_def iterFunc_def empty_Block_def)
next
  case (Cons item rest)
  then have "item \<in> set (GetIterator st BlockPrefixConfirmed options)" by simp
  then have mem: "(Key item, Value item) \<in> set st"
    and pre: "take (length BlockPrefixConfirmed) (Key item) = BlockPrefixConfirmed"
    using GetIterator_from_storage by blast+
  from assms have "\<forall>kv \<in> set st. case kv of (k, v) \<Rightarrow>
      take (length BlockPrefixConfirmed) k = BlockPrefixConfirmed \<longrightarrow>
      (case GetBlock st (unmarshal_hash v) of (b, err) \<Rightarrow> err \<noteq> None \<or> Hash b = [])"
    unfolding no_saved_block_def list_all_iff .
  from bspec [OF this mem] pre
  have "case GetBlock st (unmarshal_hash (Value item)) of (b, err) \<Rightarrow> err \<noteq> None \<or> Hash b = []"
    by simp
  with Cons show ?thesis
    by (auto simp add: LoadBlocksInsideIterator_def iterFunc_def empty_Block_def Let_def
        split: prod.splits option.splits)
qed

text \<open>
  C10. On every storage without a saved block (the iterator over the confirmed keys yields no
  block with a non-empty hash) \<open>GetLatestBlock\<close> returns the error \<open>BlockNotFound\<close>.
\<close>

theorem GetLatestBlock_BlockNotFound:
  "no_saved_block st \<Longrightarrow> snd (GetLatestBlock st) = Some ErrorBlockNotFound"
proof -
  assume "no_saved_block st"
  then have empty: "Hash (fst (fst (LoadBlocksInsideIterator st
      (GetIterator st BlockPrefixConfirmed (NewDefaultListOptions True None 1))))) = []"
    by (rule LoadBlocks_first)
  obtain b hasNext k it' where loaded: "LoadBlocksInsideIterator st
      (GetIterator st BlockPrefixConfirmed (NewDefaultListOptions True None 1)) = ((b, hasNext, k), it')"
    by (metis prod.collapse)
  with empty have "Hash b = []" by simp
  with loaded show ?thesis
    by (simp add: GetLatestBlock_def GetBlocksByConfirmed_def)
qed

lemma GetLatestBlock_never_empty:
  "snd (GetLatestBlock st) = None \<Longrightarrow> Hash (fst (GetLatestBlock st)) \<noteq> []"
  by (simp add: GetLatestBlock_def Let_def split: prod.splits if_splits)

lemma no_saved_block_empty: "no_saved_block []"
  by (simp add: no_saved_block_def)

theorem GetLatestBlock_BlockNotFound_witness:
  "no_saved_block [(''block/confirmed/2018-'', StoredString ''gone'')] \<and>
   GetLatestBlock [(''block/confirmed/2018-'', StoredString ''gone'')]
     = (empty_Block, Some ErrorBlockNotFound)"
proof -
  let ?st = "[(''block/confirmed/2018-'', StoredString ''gone'')]"
  have h: "no_saved_block ?st"
    by (simp add: no_saved_block_def BlockPrefixConfirmed_def GetBlock_def Get_def GetBlockKey_def
        BlockPrefixHash_def)
  have "fst (GetLatestBlock ?st) = empty_Block"
    by (simp add: GetLatestBlock_def GetBlocksByConfirmed_def GetIterator_def
        NewDefaultListOptions_def BlockPrefixConfirmed_def LoadBlocksInsideIterator_def
        iterFunc_def GetBlock_def Get_def GetBlockKey_def BlockPrefixHash_def empty_Block_def)
  with GetLatestBlock_BlockNotFound [OF h] h show ?thesis
    by (simp add: prod_eq_iff)
qed


section \<open>Well-formedness of a payment\<close>

lemma signed_take_bit_int_cases:
  fixes k :: int
  assumes "0 \<le> k" and "k < 2 * 2 ^ n"
  shows "signed_take_bit n k = (if k < 2 ^ n then k else k - 2 * 2 ^ n)"
proof (cases "k < 2 ^ n")
  case True
  with assms(1) have "signed_take_bit n k = k"
    by (intro signed_take_bit_int_eq_self) (auto intro: order_trans [of _ 0])
  with True show ?thesis by simp
next
  case False
  let ?l = "k - 2 * 2 ^ n"
  from False assms(2) have "- (2 ^ n) \<le> ?l" and "?l < 2 ^ n" by simp_all
  then have "signed_take_bit n ?l = ?l" by (rule signed_take_bit_int_eq_self)
  moreover have "take_bit (Suc n) ?l = take_bit (Suc n) k"
    by (simp add: take_bit_eq_mod)
  then have "signed_take_bit n ?l = signed_take_bit n k"
    by (simp only: signed_take_bit_eq_iff_take_bit_eq)
  ultimately show ?thesis using False by simp
qed

lemma sint_uint64:
  "sint (a :: 64 word) = (if uint a < 2 ^ 63 then uint a else uint a - 2 * 2 ^ 63)"
proof -
  have "uint a < 2 ^ 64" using uint_bounded [of a] by simp
  then have "uint a < 2 * 2 ^ 63" by simp
  then have "signed_take_bit 63 (uint a) = (if uint a < 2 ^ 63 then uint a else uint a - 2 * 2 ^ 63)"
    by (intro signed_take_bit_int_cases) simp_all
  then show ?thesis by (simp add: sint_uint)
qed

lemma int64_below_one:
  "sint (a :: 64 word) < 1 \<longleftrightarrow> a = 0 \<or> 9223372036854775808 \<le> a"
proof -
  have lt: "uint a < 2 * 2 ^ 63" using uint_bounded [of a] by simp
  have zero: "uint a = 0 \<longleftrightarrow> a = 0" by (simp add: uint_0_iff)
  have le: "9223372036854775808 \<le> a \<longleftrightarrow> 2 ^ 63 \<le> uint a"
    by (simp add: word_le_def)
  show ?thesis
  proof (cases "uint a < 2 ^ 63")
    case True
    then have "sint a = uint a" by (simp add: sint_uint64)
    moreover have "uint a < 1 \<longleftrightarrow> uint a = 0" using uint_ge_0 [of a] by linarith
    ultimately show ?thesis using True zero le by simp
  next
    case False
    then have "sint a = uint a - 2 * 2 ^ 63" by (simp add: sint_uint64)
    with lt have "sint a < 1" by simp
    with False le show ?thesis by simp
  qed
qed


text \<open>
  C6, as the claim states it: with a target that parses, \<open>IsWellFormed\<close> succeeds for every
  amount that is at least 1. It fails for a payment to a valid account address with the
  amount \<open>2^63\<close>: \<open>int64\<close> of it is negative, and the payment is refused with
  \<open>OperationAmountUnderflow\<close>.
\<close>

theorem IsWellFormed_amount_counterexample:
  "sample_Parse zero_account_address = None \<and>
   (1 :: Amount) \<le> 9223372036854775808 \<and>
   OperationBodyPayment_IsWellFormed sample_Parse
     \<lparr>Target = zero_account_address, Amount = 9223372036854775808\<rparr> ''net''
     = Some ErrorOperationAmountUnderflow"
  by (simp add: OperationBodyPayment_IsWellFormed_def sample_Parse_def)

text \<open>
  C6, amended. For every payment, \<open>IsWellFormed\<close> succeeds if and only if \<open>keypair.Parse\<close>
  returns no error for the target and the amount, read as a signed 64-bit integer, is at
  least 1, that is, the amount lies between 1 and \<open>2^63 - 1\<close>; for a target that
  \<open>keypair.Parse\<close> accepts it returns \<open>OperationAmountUnderflow\<close> exactly when the amount is 0
  or at least \<open>2^63\<close>; for a target that \<open>keypair.Parse\<close> refuses it returns the error of the
  parser, whatever the amount. Which strings the parser of the external library accepts is
  a parameter.
\<close>

theorem IsWellFormed_iff_signed_amount:
  "(OperationBodyPayment_IsWellFormed parse body networkID = None \<longleftrightarrow>
      parse (Target body) = None \<and> 1 \<le> Amount body \<and> Amount body \<le> 9223372036854775807) \<and>
   (parse (Target body) = None \<longrightarrow>
      (OperationBodyPayment_IsWellFormed parse body networkID = Some ErrorOperationAmountUnderflow \<longleftrightarrow>
         Amount body = 0 \<or> 9223372036854775808 \<le> Amount body)) \<and>
   (\<forall>e. parse (Target body) = Some e \<longrightarrow>
      OperationBodyPayment_IsWellFormed parse body networkID = Some e)"
proof -
  have one: "1 \<le> Amount body \<longleftrightarrow> Amount body \<noteq> 0"
    by (simp add: word_le_def uint_0_iff [symmetric] int_one_le_iff_zero_less order_less_le)
  have top: "Amount body \<le> 9223372036854775807 \<longleftrightarrow> \<not> 9223372036854775808 \<le> Amount body"
    by (auto simp add: word_le_def)
  show ?thesis
    by (auto simp add: OperationBodyPayment_IsWellFormed_def int64_below_one one top
        split: option.splits)
qed

lemma sample_Parse_strings:
  "sample_Parse zero_account_address = None"
  "sample_Parse zero_secret_seed = None"
  "sample_Parse ''GTARGET'' = Some ErrorKeypairParse"
  by (simp_all add: sample_Parse_def zero_account_address_def zero_secret_seed_def)

theorem IsWellFormed_iff_signed_amount_witness:
  "OperationBodyPayment_IsWellFormed sample_Parse
     \<lparr>Target = zero_account_address, Amount = 0\<rparr> ''net'' = Some ErrorOperationAmountUnderflow \<and>
   OperationBodyPayment_IsWellFormed sample_Parse
     \<lparr>Target = zero_account_address, Amount = 1\<rparr> ''net'' = None \<and>
   OperationBodyPayment_IsWellFormed sample_Parse
     \<lparr>Target = zero_account_address, Amount = 9223372036854775807\<rparr> ''net'' = None \<and>
   OperationBodyPayment_IsWellFormed sample_Parse
     \<lparr>Target = zero_account_address, Amount = 9223372036854775808\<rparr> ''net''
     = Some ErrorOperationAmountUnderflow \<and>
   OperationBodyPayment_IsWellFormed sample_Parse
     \<lparr>Target = zero_secret_seed, Amount = 1\<rparr> ''net'' = None \<and>
   OperationBodyPayment_IsWellFormed sample_Parse
     \<lparr>Target = ''GTARGET'', Amount = 1\<rparr> ''net'' = Some ErrorKeypairParse"
  using IsWellFormed_iff_signed_amount [of sample_Parse
      "\<lparr>Target = zero_account_address, Amount = 0\<rparr>" "''net''"]
    IsWellFormed_iff_signed_amount [of sample_Parse
      "\<lparr>Target = zero_account_address, Amount = 1\<rparr>" "''net''"]
    IsWellFormed_iff_signed_amount [of sample_Parse
      "\<lparr>Target = zero_account_address, Amount = 9223372036854775807\<rparr>" "''net''"]
    IsWellFormed_iff_signed_amount [of sample_Parse
      "\<lparr>Target = zero_account_address, Amount = 9223372036854775808\<rparr>" "''net''"]
    IsWellFormed_iff_signed_amount [of sample_Parse
      "\<lparr>Target = zero_secret_seed, Amount = 1\<rparr>" "''net''"]
    IsWellFormed_iff_signed_amount [of sample_Parse
      "\<lparr>Target = ''GTARGET'', Amount = 1\<rparr>" "''net''"]
  by (simp add: sample_Parse_strings)

section \<open>The local node is never its own validator\<close>

lemma AddValidators_range_Address [simp]:
  "LocalNode_Address (AddValidators_range n vas) = LocalNode_Address n"
  by (induction n vas rule: AddValidators_range.induct) (simp_all add: LocalNode_Address_def)

lemma AddValidators_range_not_self:
  "validators n (LocalNode_Address n) = None \<Longrightarrow>
   validators (AddValidators_range n vas) (LocalNode_Address n) = None"
proof (induction n vas rule: AddValidators_range.induct)
  case (1 n)
  then show ?case by simp
next
  case (2 n va vas)
  show ?case
  proof (cases "LocalNode_Address n = Validator_Address va")
    case True
    with 2 show ?thesis by simp
  next
    case False
    let ?n' = "n\<lparr>validators := (validators n)(Validator_Address va \<mapsto> va)\<rparr>"
    have same: "LocalNode_Address ?n' = LocalNode_Address n"
      by (simp add: LocalNode_Address_def)
    from False "2.prems" have "validators ?n' (LocalNode_Address ?n') = None"
      by (simp add: same)
    with False have "validators (AddValidators_range ?n' vas) (LocalNode_Address ?n') = None"
      by (rule "2.IH"(2))
    with False same show ?thesis by simp
  qed
qed

lemma AddValidators_calls_Address [simp]:
  "LocalNode_Address (AddValidators_calls n calls) = LocalNode_Address n"
  by (induction calls arbitrary: n) (simp_all add: AddValidators_def)

lemma AddValidators_calls_not_self:
  "validators n (LocalNode_Address n) = None \<Longrightarrow>
   validators (AddValidators_calls n calls) (LocalNode_Address n) = None"
proof (induction calls arbitrary: n)
  case Nil
  then show ?case by simp
next
  case (Cons vas calls)
  let ?n' = "snd (AddValidators n vas)"
  have addr: "LocalNode_Address ?n' = LocalNode_Address n"
    by (simp add: AddValidators_def)
  from Cons.prems have "validators ?n' (LocalNode_Address ?n') = None"
    by (simp add: AddValidators_def AddValidators_range_not_self)
  from Cons.IH [OF this] addr show ?case by simp
qed

lemma NewLocalNode_no_validators:
  "NewLocalNode kp endpoint alias0 = Inr n \<Longrightarrow> validators n = Map.empty"
  by (auto simp add: NewLocalNode_def split: sum.splits if_splits)

text \<open>
  C9. A local node is never in its own validator registry: for the node that \<open>NewLocalNode\<close>
  makes and every sequence of calls of \<open>AddValidators\<close> with arbitrary validators, also ones
  with the node's own address, \<open>HasValidators\<close> of the node's own address is false.
\<close>

theorem LocalNode_never_own_validator:
  "NewLocalNode kp endpoint alias0 = Inr n \<Longrightarrow>
   \<not> HasValidators (AddValidators_calls n calls) (LocalNode_Address (AddValidators_calls n calls))"
proof -
  assume "NewLocalNode kp endpoint alias0 = Inr n"
  then have "validators n (LocalNode_Address n) = None"
    by (simp add: NewLocalNode_no_validators)
  then show ?thesis
    using AddValidators_calls_not_self [of n calls] by (simp add: HasValidators_def)
qed

lemma NewLocalNode_test_kp: "NewLocalNode test_kp None [] = Inr test_node"
  by (simp add: NewLocalNode_def MakeAlias_def test_kp_def test_node_def keypair_Address_def)

lemma test_node_calls:
  "HasValidators (AddValidators_calls test_node test_calls)
     ''GOTHERNODEADDRESS''"
  by (simp add: AddValidators_def HasValidators_def LocalNode_Address_def keypair_Address_def
      test_node_def test_kp_def test_calls_def validator_self_def validator_other_def
      Validator_Address_def)

theorem LocalNode_never_own_validator_witness:
  "NewLocalNode test_kp None [] = Inr test_node \<and>
   LocalNode_Address test_node = ''GLOCALNODEADDRESS'' \<and>
   HasValidators (AddValidators_calls test_node test_calls)
     ''GOTHERNODEADDRESS'' \<and>
   \<not> HasValidators (AddValidators_calls test_node test_calls)
     ''GLOCALNODEADDRESS''"
proof -
  have addr: "LocalNode_Address test_node = ''GLOCALNODEADDRESS''"
    by (simp add: LocalNode_Address_def keypair_Address_def test_node_def test_kp_def)
  from LocalNode_never_own_validator [OF NewLocalNode_test_kp,
      of "test_calls"]
  have "\<not> HasValidators
      (AddValidators_calls test_node test_calls)
      ''GLOCALNODEADDRESS''"
    by (simp only: AddValidators_calls_Address addr simp_thms)
  with NewLocalNode_test_kp addr test_node_calls show ?thesis by blast
qed


section \<open>Broadcast\<close>

lemma same_view_refl: "same_view c c"
  by (simp add: same_view_def)

lemma same_view_trans: "same_view c c' \<Longrightarrow> same_view c' c'' \<Longrightarrow> same_view c c''"
  by (simp add: same_view_def)

lemma GetConnection_same_view: "same_view c (snd (GetConnection c a))"
  by (auto simp add: same_view_def GetConnection_def split: option.splits)

lemma Broadcast_go_same_view: "same_view c (snd (Broadcast_go c message vo))"
proof (cases vo)
  case None
  then show ?thesis by (simp add: Broadcast_go_def same_view_refl)
next
  case (Some v)
  have "snd (Broadcast_go c message (Some v)) = snd (GetConnection c (Validator_Address v))"
    by (simp add: Broadcast_go_def split: prod.splits option.splits)
  with Some show ?thesis by (simp add: GetConnection_same_view)
qed

text \<open>What one goroutine does depends on the client alone.\<close>

lemma Broadcast_go_outcome:
  "fst (Broadcast_go c message vo) =
     (case vo of
        None \<Rightarrow> Panic ''nil pointer dereference''
      | Some v \<Rightarrow>
          if GetType message = BallotMessage then
            (case fst (GetConnection c (Validator_Address v)) of
               None \<Rightarrow> Panic ''nil pointer dereference''
             | Some cl \<Rightarrow> SendBallot cl message)
          else if GetType message = TransactionMessage then
            (case fst (GetConnection c (Validator_Address v)) of
               None \<Rightarrow> Panic ''nil pointer dereference''
             | Some cl \<Rightarrow> SendMessage cl message)
          else Panic ''invalid message'')"
  by (simp add: Broadcast_go_def split: option.splits prod.splits)

lemma Broadcast_go_fst_same_view:
  "same_view c0 c \<Longrightarrow>
   fst (Broadcast_go c message (cm_validators c a)) = fst (Broadcast_go c0 message (cm_validators c0 a))"
proof -
  assume "same_view c0 c"
  then have "cm_validators c = cm_validators c0"
    and "\<And>b. fst (GetConnection c b) = fst (GetConnection c0 b)"
    by (simp_all add: same_view_def)
  then show ?thesis by (simp add: Broadcast_go_outcome split: option.splits)
qed

text \<open>The goroutines do not influence each other: each outcome is that of the first state.\<close>

lemma Broadcast_range_outcomes:
  "same_view c0 c \<Longrightarrow>
   fst (Broadcast_range c message entries) =
     map (\<lambda>entry. fst (Broadcast_go c0 message (cm_validators c0 (fst entry)))) (filter snd entries)"
proof (induction entries arbitrary: c)
  case Nil
  then show ?case by simp
next
  case (Cons entry entries)
  obtain addr isConnected where entry: "entry = (addr, isConnected)" by (cases entry)
  show ?case
  proof (cases isConnected)
    case False
    with Cons entry show ?thesis by simp
  next
    case True
    let ?go = "Broadcast_go c message (cm_validators c addr)"
    have "same_view c (snd ?go)" by (rule Broadcast_go_same_view)
    with Cons.prems have "same_view c0 (snd ?go)" by (rule same_view_trans)
    then have rest: "fst (Broadcast_range (snd ?go) message entries) =
        map (\<lambda>entry. fst (Broadcast_go c0 message (cm_validators c0 (fst entry)))) (filter snd entries)"
      by (rule Cons.IH)
    have first: "fst ?go = fst (Broadcast_go c0 message (cm_validators c0 addr))"
      using Cons.prems by (rule Broadcast_go_fst_same_view)
    from True entry first rest show ?thesis
      by (simp add: case_prod_beta)
  qed
qed

lemma Broadcast_outcomes:
  "fst (Broadcast c message) =
     map (\<lambda>entry. fst (Broadcast_go c message (cm_validators c (fst entry))))
       (filter snd (connected c))"
  unfolding Broadcast_def by (rule Broadcast_range_outcomes [OF same_view_refl])

lemma aborts_map: "aborts (map f xs) \<longleftrightarrow> (\<exists>x \<in> set xs. is_Panic (f x))"
  by (simp add: aborts_def list_ex_iff)

lemma resolved_outcome:
  assumes "resolves c entry" and "snd entry"
  shows "is_Panic (fst (Broadcast_go c message (cm_validators c (fst entry)))) \<longleftrightarrow>
         GetType message \<noteq> BallotMessage \<and> GetType message \<noteq> TransactionMessage"
  using assms
  by (cases entry) (auto simp add: resolves_def Broadcast_go_outcome split: option.splits)

text \<open>
  C7, as the claim states it: \<open>Broadcast\<close> aborts the process if and only if the type of the
  message is neither the ballot type nor the transaction type. It fails when no validator is
  connected: the type is looked at inside the goroutine of a connected validator, so a
  message of an unknown type is dropped without a panic.
\<close>

theorem Broadcast_unknown_type_counterexample:
  "GetType \<lparr>GetType = ''unknown'', GetHashOfMessage = ''h''\<rparr> \<noteq> BallotMessage \<and>
   GetType \<lparr>GetType = ''unknown'', GetHashOfMessage = ''h''\<rparr> \<noteq> TransactionMessage \<and>
   \<not> aborts (fst (Broadcast idle_manager \<lparr>GetType = ''unknown'', GetHashOfMessage = ''h''\<rparr>))"
  by (simp add: Broadcast_def idle_manager_def aborts_def BallotMessage_def TransactionMessage_def)

text \<open>
  C7, amended. When every connected address has a validator in the table and a client can be
  had for it, \<open>Broadcast\<close> aborts the process if and only if the type of the message is neither
  the ballot type nor the transaction type and at least one validator is connected; a message
  of the ballot type goes to every connected validator through \<open>SendBallot\<close> and a message of
  the transaction type through \<open>SendMessage\<close>, one send for each connected validator.
\<close>

theorem Broadcast_aborts_iff:
  assumes "all_resolve c"
  shows "(aborts (fst (Broadcast c message)) \<longleftrightarrow>
            GetType message \<noteq> BallotMessage \<and> GetType message \<noteq> TransactionMessage \<and>
            list_ex snd (connected c)) \<and>
         (GetType message = BallotMessage \<longrightarrow>
            list_all (\<lambda>s. \<exists>cl. s = SendBallot cl message) (fst (Broadcast c message))) \<and>
         (GetType message = TransactionMessage \<longrightarrow>
            list_all (\<lambda>s. \<exists>cl. s = SendMessage cl message) (fst (Broadcast c message))) \<and>
         length (fst (Broadcast c message)) = length (filter snd (connected c))"
proof -
  from assms have res: "\<And>entry. entry \<in> set (connected c) \<Longrightarrow> resolves c entry"
    by (simp add: all_resolve_def list_all_iff)
  have "aborts (fst (Broadcast c message)) \<longleftrightarrow>
      (\<exists>entry \<in> set (filter snd (connected c)).
         is_Panic (fst (Broadcast_go c message (cm_validators c (fst entry)))))"
    by (simp only: Broadcast_outcomes aborts_map)
  also have "\<dots> \<longleftrightarrow>
      (\<exists>entry \<in> set (filter snd (connected c)).
         GetType message \<noteq> BallotMessage \<and> GetType message \<noteq> TransactionMessage)"
    using res resolved_outcome by (intro bex_cong refl) auto
  also have "\<dots> \<longleftrightarrow> GetType message \<noteq> BallotMessage \<and> GetType message \<noteq> TransactionMessage \<and>
      list_ex snd (connected c)"
  proof -
    have "list_ex snd (connected c) \<longleftrightarrow> (\<exists>entry. entry \<in> set (filter snd (connected c)))"
      by (simp add: list_ex_iff Bex_def)
    then show ?thesis by blast
  qed
  finally have abort: "aborts (fst (Broadcast c message)) \<longleftrightarrow>
      GetType message \<noteq> BallotMessage \<and> GetType message \<noteq> TransactionMessage \<and>
      list_ex snd (connected c)" .
  have ballot: "list_all (\<lambda>s. \<exists>cl. s = SendBallot cl message) (fst (Broadcast c message))"
    if "GetType message = BallotMessage"
    using that res
    by (fastforce simp add: Broadcast_outcomes list_all_iff resolves_def Broadcast_go_outcome
        split: option.splits)
  have tx: "list_all (\<lambda>s. \<exists>cl. s = SendMessage cl message) (fst (Broadcast c message))"
    if "GetType message = TransactionMessage"
    using that res
    by (fastforce simp add: Broadcast_outcomes list_all_iff resolves_def Broadcast_go_outcome
        BallotMessage_def TransactionMessage_def split: option.splits)
  have "length (fst (Broadcast c message)) = length (filter snd (connected c))"
    by (simp add: Broadcast_outcomes)
  with abort ballot tx show ?thesis by blast
qed

lemma test_manager_resolves: "all_resolve test_manager"
  by (simp add: all_resolve_def resolves_def test_manager_def GetConnection_def
      validator_other_def Validator_Address_def Validator_Endpoint_def)

lemma Broadcast_test_manager_ballot:
  "fst (Broadcast test_manager \<lparr>GetType = ''ballot'', GetHashOfMessage = ''h''\<rparr>) =
     [SendBallot (NetworkClient None) \<lparr>GetType = ''ballot'', GetHashOfMessage = ''h''\<rparr>]"
  by (simp add: Broadcast_def Broadcast_go_def test_manager_def GetConnection_def
      validator_other_def Validator_Address_def Validator_Endpoint_def BallotMessage_def)

lemma Broadcast_test_manager_unknown:
  "fst (Broadcast test_manager \<lparr>GetType = ''unknown'', GetHashOfMessage = ''h''\<rparr>) =
     [Panic ''invalid message'']"
  by (simp add: Broadcast_def Broadcast_go_def test_manager_def GetConnection_def
      validator_other_def Validator_Address_def Validator_Endpoint_def BallotMessage_def
      TransactionMessage_def)

theorem Broadcast_aborts_iff_witness:
  "all_resolve test_manager \<and>
   aborts (fst (Broadcast test_manager \<lparr>GetType = ''unknown'', GetHashOfMessage = ''h''\<rparr>)) \<and>
   \<not> aborts (fst (Broadcast test_manager \<lparr>GetType = ''ballot'', GetHashOfMessage = ''h''\<rparr>)) \<and>
   \<not> aborts (fst (Broadcast test_manager \<lparr>GetType = ''transaction'', GetHashOfMessage = ''h''\<rparr>))"
proof -
  have connected: "list_ex snd (connected test_manager)"
    by (simp add: test_manager_def)
  from Broadcast_aborts_iff [OF test_manager_resolves,
      of "\<lparr>GetType = ''unknown'', GetHashOfMessage = ''h''\<rparr>"] connected
  have "aborts (fst (Broadcast test_manager \<lparr>GetType = ''unknown'', GetHashOfMessage = ''h''\<rparr>))"
    by (simp add: BallotMessage_def TransactionMessage_def)
  moreover
  from Broadcast_aborts_iff [OF test_manager_resolves,
      of "\<lparr>GetType = ''ballot'', GetHashOfMessage = ''h''\<rparr>"]
  have "\<not> aborts (fst (Broadcast test_manager \<lparr>GetType = ''ballot'', GetHashOfMessage = ''h''\<rparr>))"
    by (simp add: BallotMessage_def)
  moreover
  from Broadcast_aborts_iff [OF test_manager_resolves,
      of "\<lparr>GetType = ''transaction'', GetHashOfMessage = ''h''\<rparr>"]
  have "\<not> aborts (fst (Broadcast test_manager \<lparr>GetType = ''transaction'', GetHashOfMessage = ''h''\<rparr>))"
    by (simp add: TransactionMessage_def)
  ultimately show ?thesis using test_manager_resolves by blast
qed


section \<open>The transaction validator\<close>

lemma ValidateOp_None_iff: "ValidateOp st op = None \<longleftrightarrow> target_resolves st op"
  by (simp add: ValidateOp_def target_resolves_def split: OperationType.splits)

lemma ValidateOps_None_iff: "ValidateOps st ops = None \<longleftrightarrow> list_all (target_resolves st) ops"
  by (induction ops) (auto simp add: ValidateOp_None_iff [symmetric] split: option.splits)

lemma ValidateOps_errors:
  "ValidateOps st ops = Some e \<Longrightarrow>
   e = ErrorBlockAccountDoesNotExists \<or> e = ErrorBlockAccountAlreadyExists"
  by (induction ops)
     (auto simp add: ValidateOp_def split: option.splits OperationType.splits if_splits)

subsection \<open>The fallible sum is the sum as a number, if 64 bits hold it\<close>

lemma Amount_Add_amount_of: "Amount_Add a added = amount_of (unat a + unat added)"
  by (simp add: Amount_Add_def amount_of_def)

lemma Amount_Mult_amount_of: "Amount_Mult a n = amount_of (unat a * n)"
  by (simp add: Amount_Mult_def amount_of_def)

lemma unat_of_nat_amount: "n < 2 ^ 64 \<Longrightarrow> unat (of_nat n :: Amount) = n"
  by (simp add: unat_of_nat)

lemma add_amounts_amount_of:
  "add_amounts amount ops =
     amount_of (unat amount + sum_list (map (\<lambda>op. unat (GetAmount (OpB op))) ops))"
proof (induction ops arbitrary: amount)
  case Nil
  have "unat amount < 2 ^ 64" using unsigned_less [of amount] by simp
  then show ?case by (simp add: amount_of_def)
next
  case (Cons op ops)
  let ?x = "unat (GetAmount (OpB op))"
  let ?rest = "sum_list (map (\<lambda>op. unat (GetAmount (OpB op))) ops)"
  show ?case
  proof (cases "unat amount + ?x < 2 ^ 64")
    case True
    then have "unat (of_nat (unat amount + ?x) :: Amount) = unat amount + ?x"
      by (rule unat_of_nat_amount)
    with True Cons.IH [of "of_nat (unat amount + ?x)"] show ?thesis
      by (simp add: Amount_Add_amount_of amount_of_def add.assoc)
  next
    case False
    then have "\<not> unat amount + (?x + ?rest) < 2 ^ 64" by linarith
    with False show ?thesis
      by (simp add: Amount_Add_amount_of amount_of_def)
  qed
qed

lemma amount_of_fits: "n < 2 ^ 64 \<Longrightarrow> \<exists>a. amount_of n = Inr a \<and> unat a = n"
  by (simp add: amount_of_def unat_of_nat_amount)

lemma amount_of_overflow: "\<not> n < 2 ^ 64 \<Longrightarrow> amount_of n = Inl AmountOverflow"
  by (simp add: amount_of_def)

lemma TotalAmount_amount_of: "TotalAmount tx = amount_of (amounts_and_fees tx)"
proof -
  let ?ops = "Operations (B tx)"
  let ?sum = "sum_list (map (\<lambda>op. unat (GetAmount (OpB op))) ?ops)"
  let ?fees = "unat BaseFee * length ?ops"
  have loop: "add_amounts 0 ?ops = amount_of ?sum"
    by (simp add: add_amounts_amount_of)
  have total: "amounts_and_fees tx = ?sum + ?fees"
    by (simp add: amounts_and_fees_def)
  show ?thesis
  proof (cases "?sum < 2 ^ 64")
    case False
    then have "\<not> ?sum + ?fees < 2 ^ 64" by linarith
    then have "amount_of (amounts_and_fees tx) = Inl AmountOverflow"
      unfolding total by (rule amount_of_overflow)
    moreover from False have "TotalAmount tx = Inl AmountOverflow"
      by (simp add: TotalAmount_def loop amount_of_overflow)
    ultimately show ?thesis by simp
  next
    case True
    then obtain amount where amount: "amount_of ?sum = Inr amount" "unat amount = ?sum"
      using amount_of_fits by blast
    show ?thesis
    proof (cases "?fees < 2 ^ 64")
      case False
      then have "\<not> ?sum + ?fees < 2 ^ 64" by linarith
      then have "amount_of (amounts_and_fees tx) = Inl AmountOverflow"
        unfolding total by (rule amount_of_overflow)
      moreover from False have "TotalAmount tx = Inl AmountOverflow"
        by (simp add: TotalAmount_def loop amount(1) Amount_Mult_amount_of amount_of_overflow)
      ultimately show ?thesis by simp
    next
      case True
      then obtain fees where fees: "amount_of ?fees = Inr fees" "unat fees = ?fees"
        using amount_of_fits by blast
      have "TotalAmount tx = Amount_Add amount fees"
        by (simp add: TotalAmount_def loop amount(1) Amount_Mult_amount_of fees(1))
      also have "\<dots> = amount_of (?sum + ?fees)"
        by (simp only: Amount_Add_amount_of amount(2) fees(2))
      finally show ?thesis by (simp only: total)
    qed
  qed
qed

lemma TotalAmount_error: "TotalAmount tx = Inl e \<Longrightarrow> e = AmountOverflow"
  by (simp add: TotalAmount_amount_of amount_of_def split: if_splits)

text \<open>Step 5 once the steps before it have passed.\<close>

lemma ValidateTx_step5:
  assumes "GetBlockAccount st (Source (B tx)) = Inr ba"
    and "TxSequenceID (B tx) = SequenceID ba"
    and "list_all (target_resolves st) (Operations (B tx))"
  shows "ValidateTx st tx =
     (if \<not> amounts_and_fees tx < 2 ^ 64 then Some AmountOverflow
      else if unat (Balance ba) < amounts_and_fees tx then Some ErrorTransactionExcessAbilityToPay
      else None)"
proof -
  from assms(3) have "ValidateOps st (Operations (B tx)) = None"
    by (simp add: ValidateOps_None_iff)
  with assms(1,2) show ?thesis
    by (simp add: ValidateTx_def TotalAmount_amount_of amount_of_def word_less_nat_alt
        unat_of_nat_amount)
qed

text \<open>The first operation that fails its check decides the result of the loop.\<close>

lemma ValidateOps_at_violation:
  "list_all (target_resolves st) pre \<Longrightarrow> ValidateOp st op = Some e \<Longrightarrow>
   ValidateOps st (pre @ op # post) = Some e"
  by (induction pre) (simp_all add: ValidateOp_None_iff [symmetric])

subsection \<open>The scenarios of checker_ballot_transaction_test.go on the model\<close>

lemmas test_eval = ValidateTx_def GetBlockAccount_def Get_def GetBlockAccountKey_def
  BlockAccountPrefixAddress_def ValidateOp_def ExistsBlockAccount_def TotalAmount_amount_of
  amount_of_def amounts_and_fees_def
  test_tx_def payment_op_def create_op_def storage_source_def storage_target_def
  storage_both_def save_account_def test_account_def kps_def kpt_def AmountPerCoin_def
  BaseFee_def

lemma TestValidateTxPaymentMissingBlockAccount:
  "ValidateTx [] (test_tx 0 [payment_op 10000]) = Some ErrorBlockAccountDoesNotExists"
  "ValidateTx (storage_source 0) (test_tx 0 [payment_op 10000]) = Some ErrorBlockAccountDoesNotExists"
  "ValidateTx storage_target (test_tx 0 [payment_op 10000]) = Some ErrorBlockAccountDoesNotExists"
  "ValidateTx (storage_both 0) (test_tx 0 [payment_op 10000]) = None"
  by (simp_all add: test_eval)

lemma TestValidateTxWrongSequenceID:
  "ValidateTx (storage_both 1) (test_tx 0 [payment_op 10000]) = Some ErrorTransactionInvalidSequenceID"
  "ValidateTx (storage_both 1) (test_tx 2 [payment_op 10000]) = Some ErrorTransactionInvalidSequenceID"
  "ValidateTx (storage_both 1) (test_tx 1 [payment_op 10000]) = None"
  by (simp_all add: test_eval)

lemma TestValidateTxOverBalance:
  "ValidateTx (storage_both 1) (test_tx 1 [payment_op 10000000])
     = Some ErrorTransactionExcessAbilityToPay"
  "ValidateTx (storage_both 1) (test_tx 1 [payment_op (10000000 - 10000)]) = None"
  "ValidateTx (storage_both 1)
     (test_tx 1 [payment_op 2500000, payment_op 2500000, payment_op 2500000, payment_op 2500000])
     = Some ErrorTransactionExcessAbilityToPay"
  "ValidateTx (storage_both 1)
     (test_tx 1 [payment_op (2500000 - 4 * 10000), payment_op 2500000, payment_op 2500000,
        payment_op 2500000])
     = None"
  by (simp_all add: test_eval)

lemma TestValidateOpCreateExistsAccount:
  "ValidateTx (storage_both 0) (test_tx 0 [create_op 10000]) = Some ErrorBlockAccountAlreadyExists"
  "ValidateTx (storage_source 0) (test_tx 0 [create_op 10000]) = None"
  by (simp_all add: test_eval)

lemma storage_both_source: "GetBlockAccount (storage_both seq) kps = Inr (test_account kps seq)"
  by (simp add: test_eval)

lemma storage_both_payment: "list_all (target_resolves (storage_both seq)) [payment_op amount]"
  by (simp add: target_resolves_def test_eval)

text \<open>
  C1. On every storage in which the source account of the transaction exists, \<open>ValidateTx\<close>
  returns \<open>TransactionInvalidSequenceID\<close> if and only if the sequence ID of the transaction
  differs from the sequence ID of the source account: a lesser and a greater value are both
  refused, and the equal value passes this check.
\<close>

theorem ValidateTx_InvalidSequenceID_iff:
  "GetBlockAccount st (Source (B tx)) = Inr ba \<Longrightarrow>
   (ValidateTx st tx = Some ErrorTransactionInvalidSequenceID \<longleftrightarrow>
      TxSequenceID (B tx) \<noteq> SequenceID ba)"
  by (auto simp add: ValidateTx_def split: option.splits sum.splits
      dest: ValidateOps_errors TotalAmount_error)

theorem ValidateTx_InvalidSequenceID_iff_witness:
  "GetBlockAccount (storage_both 1) (Source (B (test_tx 0 [payment_op 10000])))
     = Inr (test_account kps 1) \<and>
   ValidateTx (storage_both 1) (test_tx 0 [payment_op 10000]) = Some ErrorTransactionInvalidSequenceID \<and>
   ValidateTx (storage_both 1) (test_tx 2 [payment_op 10000]) = Some ErrorTransactionInvalidSequenceID \<and>
   ValidateTx (storage_both 1) (test_tx 1 [payment_op 10000]) \<noteq> Some ErrorTransactionInvalidSequenceID"
proof -
  have src: "\<And>seq. GetBlockAccount (storage_both 1) (Source (B (test_tx seq [payment_op 10000])))
      = Inr (test_account kps 1)"
    by (simp add: test_eval)
  have "ValidateTx (storage_both 1) (test_tx 0 [payment_op 10000]) = Some ErrorTransactionInvalidSequenceID"
    using ValidateTx_InvalidSequenceID_iff [OF src [of 0]] by (simp add: test_tx_def test_account_def)
  moreover
  have "ValidateTx (storage_both 1) (test_tx 2 [payment_op 10000]) = Some ErrorTransactionInvalidSequenceID"
    using ValidateTx_InvalidSequenceID_iff [OF src [of 2]] by (simp add: test_tx_def test_account_def)
  moreover
  have "ValidateTx (storage_both 1) (test_tx 1 [payment_op 10000]) \<noteq> Some ErrorTransactionInvalidSequenceID"
    using ValidateTx_InvalidSequenceID_iff [OF src [of 1]] by (simp add: test_tx_def test_account_def)
  ultimately show ?thesis using src [of 0] by blast
qed

text \<open>
  C2, as the claim states it: whenever the source and the targets of all operations resolve,
  \<open>ValidateTx\<close> returns \<open>TransactionExcessAbilityToPay\<close> if and only if the total exceeds the
  balance. It fails for a transaction whose sequence ID is not that of the account: the
  source and the target resolve and the total (10 010 000) exceeds the balance (10 000 000),
  but the result is \<open>TransactionInvalidSequenceID\<close>.
\<close>

theorem ValidateTx_ExcessAbilityToPay_counterexample:
  "GetBlockAccount (storage_both 1) (Source (B (test_tx 0 [payment_op 10000000])))
     = Inr (test_account kps 1) \<and>
   list_all (target_resolves (storage_both 1)) (Operations (B (test_tx 0 [payment_op 10000000]))) \<and>
   TotalAmount (test_tx 0 [payment_op 10000000]) = Inr 10010000 \<and>
   Balance (test_account kps 1) < 10010000 \<and>
   ValidateTx (storage_both 1) (test_tx 0 [payment_op 10000000])
     \<noteq> Some ErrorTransactionExcessAbilityToPay"
  by (simp add: target_resolves_def test_eval)

text \<open>
  C2, amended. For every transaction whose source account exists, whose sequence ID is that
  of the source account, whose operations all pass the check of their target, and whose sum
  of all operation amounts plus \<open>BaseFee\<close> (10000) times the number of operations fits into
  the 64 bits of an amount (it is below \<open>2^64\<close>, so that no addition fails): \<open>TotalAmount\<close>
  is that sum, \<open>ValidateTx\<close> returns \<open>TransactionExcessAbilityToPay\<close> if and only if the sum
  exceeds the balance of the source, and when the sum is at most the balance, the equal sum
  included, the transaction is accepted.
\<close>

theorem ValidateTx_ExcessAbilityToPay_iff:
  assumes "GetBlockAccount st (Source (B tx)) = Inr ba"
    and "TxSequenceID (B tx) = SequenceID ba"
    and "list_all (target_resolves st) (Operations (B tx))"
    and "amounts_and_fees tx < 2 ^ 64"
  shows "(\<exists>totalAmount. TotalAmount tx = Inr totalAmount \<and>
            unat totalAmount = amounts_and_fees tx) \<and>
         (ValidateTx st tx = Some ErrorTransactionExcessAbilityToPay \<longleftrightarrow>
            unat (Balance ba) < amounts_and_fees tx) \<and>
         (amounts_and_fees tx \<le> unat (Balance ba) \<longrightarrow> ValidateTx st tx = None)"
proof -
  from assms(4) have "TotalAmount tx = Inr (of_nat (amounts_and_fees tx))"
    and "unat (of_nat (amounts_and_fees tx) :: Amount) = amounts_and_fees tx"
    by (simp_all add: TotalAmount_amount_of amount_of_def unat_of_nat_amount)
  then have total: "\<exists>totalAmount. TotalAmount tx = Inr totalAmount \<and>
      unat totalAmount = amounts_and_fees tx"
    by blast
  from assms have "ValidateTx st tx =
      (if unat (Balance ba) < amounts_and_fees tx then Some ErrorTransactionExcessAbilityToPay
       else None)"
    by (simp add: ValidateTx_step5)
  with total show ?thesis by simp
qed

theorem ValidateTx_ExcessAbilityToPay_iff_witness:
  "ValidateTx (storage_both 1) (test_tx 1 [payment_op 10000000])
     = Some ErrorTransactionExcessAbilityToPay \<and>
   amounts_and_fees (test_tx 1 [payment_op 9990000]) = 10000000 \<and>
   ValidateTx (storage_both 1) (test_tx 1 [payment_op 9990000]) = None"
proof -
  have seq: "\<And>ops. TxSequenceID (B (test_tx 1 ops)) = SequenceID (test_account kps 1)"
    by (simp add: test_tx_def test_account_def)
  have src: "\<And>ops. GetBlockAccount (storage_both 1) (Source (B (test_tx 1 ops)))
      = Inr (test_account kps 1)"
    by (simp add: test_eval)
  have ops: "\<And>amount. list_all (target_resolves (storage_both 1))
      (Operations (B (test_tx 1 [payment_op amount])))"
    by (simp add: target_resolves_def test_eval)
  have bal: "unat (Balance (test_account kps 1)) = 10000000"
    by (simp add: test_account_def AmountPerCoin_def)
  have over: "amounts_and_fees (test_tx 1 [payment_op 10000000]) = 10010000"
    and exact: "amounts_and_fees (test_tx 1 [payment_op 9990000]) = 10000000"
    by (simp_all add: test_eval)
  have fits: "amounts_and_fees (test_tx 1 [payment_op 10000000]) < 2 ^ 64"
    "amounts_and_fees (test_tx 1 [payment_op 9990000]) < 2 ^ 64"
    by (simp_all add: over exact)
  have more: "unat (Balance (test_account kps 1))
      < amounts_and_fees (test_tx 1 [payment_op 10000000])"
    by (simp add: bal over)
  have enough: "amounts_and_fees (test_tx 1 [payment_op 9990000])
      \<le> unat (Balance (test_account kps 1))"
    by (simp add: bal exact)
  from ValidateTx_ExcessAbilityToPay_iff [OF src [of "[payment_op 10000000]"]
      seq [of "[payment_op 10000000]"] ops [of 10000000] fits(1)] more
  have "ValidateTx (storage_both 1) (test_tx 1 [payment_op 10000000])
      = Some ErrorTransactionExcessAbilityToPay"
    by blast
  moreover
  from ValidateTx_ExcessAbilityToPay_iff [OF src [of "[payment_op 9990000]"]
      seq [of "[payment_op 9990000]"] ops [of 9990000] fits(2)] enough
  have "ValidateTx (storage_both 1) (test_tx 1 [payment_op 9990000]) = None"
    by blast
  ultimately show ?thesis using exact by blast
qed

text \<open>
  A sum that does not fit: three payments of \<open>2^63 - 1\<close> from an account with the balance
  \<open>2^64 - 1\<close>. The second addition fails, and in the model that failure is the result; the
  transaction is neither accepted nor refused with \<open>TransactionExcessAbilityToPay\<close>.
\<close>

lemma ValidateTx_sum_overflows:
  "ValidateTx
     (save_account (test_account kpt 0)
        (save_account \<lparr>Address = kps, Balance = 18446744073709551615, SequenceID = 1\<rparr> []))
     (test_tx 1 [payment_op 9223372036854775807, payment_op 9223372036854775807,
        payment_op 9223372036854775807])
   = Some AmountOverflow"
  by (simp add: test_eval)

text \<open>
  C3, as the claim states it: with the source present, the targets of the payments present
  and the targets of the account creations absent, \<open>ValidateTx\<close> returns no error. It fails
  for the first transaction of \<open>TestValidateTxOverBalance\<close>: both accounts are present, and
  the payment of the whole balance is refused with \<open>TransactionExcessAbilityToPay\<close>.
\<close>

theorem ValidateTx_accounts_counterexample:
  "GetBlockAccount (storage_both 1) (Source (B (test_tx 1 [payment_op 10000000])))
     = Inr (test_account kps 1) \<and>
   list_all (target_resolves (storage_both 1)) (Operations (B (test_tx 1 [payment_op 10000000]))) \<and>
   ValidateTx (storage_both 1) (test_tx 1 [payment_op 10000000]) \<noteq> None"
  by (simp add: target_resolves_def test_eval)

text \<open>
  C3, amended. \<open>ValidateTx\<close> returns \<open>BlockAccountDoesNotExists\<close> when the source account is
  not in the storage. When the source is present and the sequence IDs are equal, the first
  operation, in order, that fails the check of its target decides the result:
  \<open>BlockAccountDoesNotExists\<close> for a Payment whose target is absent,
  \<open>BlockAccountAlreadyExists\<close> for a CreateAccount whose target is present. With the source
  present, the sequence IDs equal, the targets of all payments present, the targets of all
  account creations absent and the total at most the balance, \<open>ValidateTx\<close> returns no error.
\<close>

theorem ValidateTx_accounts:
  "(\<forall>e. GetBlockAccount st (Source (B tx)) = Inl e \<longrightarrow>
        ValidateTx st tx = Some ErrorBlockAccountDoesNotExists) \<and>
   (\<forall>ba pre op post.
        GetBlockAccount st (Source (B tx)) = Inr ba \<and> TxSequenceID (B tx) = SequenceID ba \<and>
        Operations (B tx) = pre @ op # post \<and> list_all (target_resolves st) pre \<and>
        Type (OpH op) = OperationPayment \<and> \<not> ExistsBlockAccount st (TargetAddress (OpB op)) \<longrightarrow>
        ValidateTx st tx = Some ErrorBlockAccountDoesNotExists) \<and>
   (\<forall>ba pre op post.
        GetBlockAccount st (Source (B tx)) = Inr ba \<and> TxSequenceID (B tx) = SequenceID ba \<and>
        Operations (B tx) = pre @ op # post \<and> list_all (target_resolves st) pre \<and>
        Type (OpH op) = OperationCreateAccount \<and> ExistsBlockAccount st (TargetAddress (OpB op)) \<longrightarrow>
        ValidateTx st tx = Some ErrorBlockAccountAlreadyExists) \<and>
   (\<forall>ba.
        GetBlockAccount st (Source (B tx)) = Inr ba \<and> TxSequenceID (B tx) = SequenceID ba \<and>
        list_all (target_resolves st) (Operations (B tx)) \<and> amounts_and_fees tx \<le> unat (Balance ba) \<longrightarrow>
        ValidateTx st tx = None)"
proof (intro conjI allI impI)
  fix e assume "GetBlockAccount st (Source (B tx)) = Inl e"
  then show "ValidateTx st tx = Some ErrorBlockAccountDoesNotExists"
    by (simp add: ValidateTx_def)
next
  fix ba pre op post
  assume h: "GetBlockAccount st (Source (B tx)) = Inr ba \<and> TxSequenceID (B tx) = SequenceID ba \<and>
        Operations (B tx) = pre @ op # post \<and> list_all (target_resolves st) pre \<and>
        Type (OpH op) = OperationPayment \<and> \<not> ExistsBlockAccount st (TargetAddress (OpB op))"
  then have "ValidateOp st op = Some ErrorBlockAccountDoesNotExists"
    by (simp add: ValidateOp_def)
  with h have "ValidateOps st (Operations (B tx)) = Some ErrorBlockAccountDoesNotExists"
    by (simp add: ValidateOps_at_violation)
  with h show "ValidateTx st tx = Some ErrorBlockAccountDoesNotExists"
    by (simp add: ValidateTx_def)
next
  fix ba pre op post
  assume h: "GetBlockAccount st (Source (B tx)) = Inr ba \<and> TxSequenceID (B tx) = SequenceID ba \<and>
        Operations (B tx) = pre @ op # post \<and> list_all (target_resolves st) pre \<and>
        Type (OpH op) = OperationCreateAccount \<and> ExistsBlockAccount st (TargetAddress (OpB op))"
  then have "ValidateOp st op = Some ErrorBlockAccountAlreadyExists"
    by (simp add: ValidateOp_def)
  with h have "ValidateOps st (Operations (B tx)) = Some ErrorBlockAccountAlreadyExists"
    by (simp add: ValidateOps_at_violation)
  with h show "ValidateTx st tx = Some ErrorBlockAccountAlreadyExists"
    by (simp add: ValidateTx_def)
next
  fix ba
  assume h: "GetBlockAccount st (Source (B tx)) = Inr ba \<and> TxSequenceID (B tx) = SequenceID ba \<and>
        list_all (target_resolves st) (Operations (B tx)) \<and> amounts_and_fees tx \<le> unat (Balance ba)"
  have "unat (Balance ba) < 2 ^ 64" using unsigned_less [of "Balance ba"] by simp
  with h have fits: "amounts_and_fees tx < 2 ^ 64" by linarith
  from h have "ValidateTx st tx =
      (if \<not> amounts_and_fees tx < 2 ^ 64 then Some AmountOverflow
       else if unat (Balance ba) < amounts_and_fees tx then Some ErrorTransactionExcessAbilityToPay
       else None)"
    by (intro ValidateTx_step5) simp_all
  with h fits show "ValidateTx st tx = None"
    by simp
qed

theorem ValidateTx_accounts_witness:
  "ValidateTx [] (test_tx 0 [payment_op 10000]) = Some ErrorBlockAccountDoesNotExists \<and>
   ValidateTx (storage_source 0) (test_tx 0 [payment_op 10000]) = Some ErrorBlockAccountDoesNotExists \<and>
   ValidateTx (storage_both 0) (test_tx 0 [create_op 10000]) = Some ErrorBlockAccountAlreadyExists \<and>
   ValidateTx (storage_both 0) (test_tx 0 [payment_op 10000]) = None"
proof -
  have absent: "GetBlockAccount [] (Source (B (test_tx 0 [payment_op 10000])))
      = Inl ErrorStorageRecordDoesNotExist"
    by (simp add: test_eval)
  have a: "ValidateTx [] (test_tx 0 [payment_op 10000]) = Some ErrorBlockAccountDoesNotExists"
    using ValidateTx_accounts [of "[]" "test_tx 0 [payment_op 10000]"] absent by blast
  have pay: "GetBlockAccount (storage_source 0) (Source (B (test_tx 0 [payment_op 10000])))
        = Inr (test_account kps 0) \<and>
      TxSequenceID (B (test_tx 0 [payment_op 10000])) = SequenceID (test_account kps 0) \<and>
      Operations (B (test_tx 0 [payment_op 10000])) = [] @ payment_op 10000 # [] \<and>
      list_all (target_resolves (storage_source 0)) [] \<and>
      Type (OpH (payment_op 10000)) = OperationPayment \<and>
      \<not> ExistsBlockAccount (storage_source 0) (TargetAddress (OpB (payment_op 10000)))"
    by (simp add: test_eval)
  have b: "ValidateTx (storage_source 0) (test_tx 0 [payment_op 10000])
      = Some ErrorBlockAccountDoesNotExists"
    using ValidateTx_accounts [of "storage_source 0" "test_tx 0 [payment_op 10000]"] pay by blast
  have create: "GetBlockAccount (storage_both 0) (Source (B (test_tx 0 [create_op 10000])))
        = Inr (test_account kps 0) \<and>
      TxSequenceID (B (test_tx 0 [create_op 10000])) = SequenceID (test_account kps 0) \<and>
      Operations (B (test_tx 0 [create_op 10000])) = [] @ create_op 10000 # [] \<and>
      list_all (target_resolves (storage_both 0)) [] \<and>
      Type (OpH (create_op 10000)) = OperationCreateAccount \<and>
      ExistsBlockAccount (storage_both 0) (TargetAddress (OpB (create_op 10000)))"
    by (simp add: test_eval)
  have c: "ValidateTx (storage_both 0) (test_tx 0 [create_op 10000])
      = Some ErrorBlockAccountAlreadyExists"
    using ValidateTx_accounts [of "storage_both 0" "test_tx 0 [create_op 10000]"] create by blast
  have ok: "GetBlockAccount (storage_both 0) (Source (B (test_tx 0 [payment_op 10000])))
        = Inr (test_account kps 0) \<and>
      TxSequenceID (B (test_tx 0 [payment_op 10000])) = SequenceID (test_account kps 0) \<and>
      list_all (target_resolves (storage_both 0)) (Operations (B (test_tx 0 [payment_op 10000]))) \<and>
      amounts_and_fees (test_tx 0 [payment_op 10000]) \<le> unat (Balance (test_account kps 0))"
    by (simp add: target_resolves_def test_eval)
  have d: "ValidateTx (storage_both 0) (test_tx 0 [payment_op 10000]) = None"
    using ValidateTx_accounts [of "storage_both 0" "test_tx 0 [payment_op 10000]"] ok by blast
  from a b c d show ?thesis by blast
qed


end
